theory Spec2Isabelle
  imports Complex_Main
begin

section \<open>Preliminaries: Python values used by the backend\<close>

text \<open>
  Python floats are modelled as exact real numbers: every arithmetic step below is the
  exact operation, without binary rounding error. Exceptions are values of \<open>exn\<close>; a
  function that can raise returns \<open>exn + 'a\<close> with \<open>Inl\<close> for the raised exception.
\<close>

datatype exn =
    ValueError string
  | IndexError string
  | ZeroDivisionError string
  | ImportError string
  | PyException string

definition returns :: "exn + 'a \<Rightarrow> bool" where
  "returns r = (case r of Inl e \<Rightarrow> False | Inr v \<Rightarrow> True)"

text \<open>
  \<open>round(x, n)\<close> of Python rounds to \<open>n\<close> decimal places, with ties going to the even
  neighbour.
\<close>

definition round_half_even :: "real \<Rightarrow> int" where
  "round_half_even x =
     (let f = \<lfloor>x\<rfloor>; d = x - of_int f
      in if d < 1 / 2 then f
         else if 1 / 2 < d then f + 1
         else if even f then f else f + 1)"

definition py_round :: "real \<Rightarrow> nat \<Rightarrow> real" where
  "py_round x n = of_int (round_half_even (x * 10 ^ n)) / 10 ^ n"

text \<open>\<open>numpy.mean\<close> of a one-dimensional sequence.\<close>

definition np_mean :: "real list \<Rightarrow> real" where
  "np_mean xs = sum_list xs / real (length xs)"

section \<open>\<open>collections.Counter\<close> as an insertion-ordered tally\<close>

text \<open>
  A \<open>Counter\<close> is a dict: iteration follows the order in which keys were first
  inserted. \<open>most_common(1)\<close> is \<open>max(items, key = count)\<close>, and \<open>max\<close> keeps the
  first of several maximal items.
\<close>

fun counter_incr :: "string \<Rightarrow> (string \<times> nat) list \<Rightarrow> (string \<times> nat) list" where
  "counter_incr k [] = [(k, 1)]"
| "counter_incr k ((k', n) # kvs) =
     (if k = k' then (k', n + 1) # kvs else (k', n) # counter_incr k kvs)"

definition Counter :: "string list \<Rightarrow> (string \<times> nat) list" where
  "Counter xs = foldl (\<lambda>c k. counter_incr k c) [] xs"

definition counter_get :: "(string \<times> nat) list \<Rightarrow> string \<Rightarrow> nat" where
  "counter_get c k = (case map_of c k of None \<Rightarrow> 0 | Some n \<Rightarrow> n)"

fun max_first :: "(string \<times> nat) \<Rightarrow> (string \<times> nat) list \<Rightarrow> (string \<times> nat)" where
  "max_first b [] = b"
| "max_first b (kv # kvs) = max_first (if snd b < snd kv then kv else b) kvs"

definition most_common1 :: "(string \<times> nat) list \<Rightarrow> (string \<times> nat) list" where
  "most_common1 c = (case c of [] \<Rightarrow> [] | kv # kvs \<Rightarrow> [max_first kv kvs])"

section \<open>The predictor (\<open>ml/predictor.py\<close>)\<close>

record prediction =
  predicted_class :: string
  confidence :: real
  probabilities :: "(string \<times> real) list"

record individual_prediction = prediction +
  image_index :: nat
  image_path :: string

record vote =
  count :: nat
  percentage :: real

text \<open>
  The dict returned by \<open>predict_patient\<close>. Its key \<open>confidence\<close> is the field
  \<open>patient_confidence\<close> here, since a prediction already has a field \<open>confidence\<close>.
\<close>

record patient_result =
  patient_diagnosis :: string
  diagnosis_label :: string
  patient_confidence :: real
  vote_distribution :: "(string \<times> vote) list"
  individual_predictions :: "individual_prediction list"
  consensus_strength :: real
  total_images_processed :: nat

text \<open>The state of an \<open>MRIPredictor\<close> that its methods read.\<close>

record predictor =
  class_names :: "string list"
  initialized :: bool
  model_loaded :: bool

definition CLASS_LABELS :: "(string \<times> string) list" where
  "CLASS_LABELS =
     [(''AD'', ''Alzheimer's Disease''),
      (''CN'', ''Cognitively Normal''),
      (''MCI'', ''Mild Cognitive Impairment'')]"

definition new_predictor :: "bool \<Rightarrow> predictor" where
  "new_predictor loaded =
     \<lparr>class_names = [''AD'', ''CN'', ''MCI''], initialized = loaded, model_loaded = loaded\<rparr>"

definition is_available :: "predictor \<Rightarrow> bool" where
  "is_available p = (initialized p \<and> model_loaded p)"

text \<open>
  What the network computes for one image file (lines 124 to 131 of the source): opening the
  image, the transform and the forward pass may raise; otherwise the softmax row and its
  maximum with the index of the maximum are returned.
\<close>

record net_output =
  top_class :: nat
  top_prob :: real
  softmax :: "real list"

text \<open>
  The surroundings of the predictor: the outcome of the forward pass for every image
  path, the draws of the random generators (\<open>random.choice\<close> and
  \<open>numpy.random.dirichlet\<close>) by the number of the call, and \<open>os.path.basename\<close>.
\<close>

record classifier_env =
  forward :: "string \<Rightarrow> exn + net_output"
  random_choice :: "nat \<Rightarrow> nat"
  dirichlet :: "nat \<Rightarrow> real list"
  basename :: "string \<Rightarrow> string"

text \<open>Where a per-slice prediction came from. The source does not record this.\<close>

datatype origin = RealModel | StandIn

definition py_max :: "real list \<Rightarrow> exn + real" where
  "py_max xs =
     (case xs of [] \<Rightarrow> Inl (ValueError ''max() arg is an empty sequence'')
      | y # ys \<Rightarrow> Inr (fold max ys y))"

text \<open>
  \<open>_mock_prediction\<close>: the \<open>k\<close>-th call draws a class with \<open>random.choice\<close> (an index
  below the number of classes) and a Dirichlet vector with one component per class.
\<close>

definition mock_prediction :: "predictor \<Rightarrow> classifier_env \<Rightarrow> nat \<Rightarrow> exn + prediction" where
  "mock_prediction p env k =
     (let names = class_names p
      in if names = [] then Inl (IndexError ''Cannot choose from an empty sequence'')
         else
           let cls = names ! (random_choice env k mod length names);
               probs = dirichlet env k
           in case py_max probs of
                Inl e \<Rightarrow> Inl e
              | Inr m \<Rightarrow>
                  if length probs < length names then Inl (IndexError ''index out of bounds'')
                  else Inr \<lparr>predicted_class = cls,
                            confidence = py_round (m * 100) 2,
                            probabilities =
                              map (\<lambda>i. (names ! i, py_round (probs ! i * 100) 2))
                                [0 ..< length names]\<rparr>)"

text \<open>
  The body of the \<open>try\<close> in \<open>predict_single_image\<close> after a successful forward pass:
  indexing \<open>class_names\<close> and the softmax row raises \<open>IndexError\<close> out of range.
\<close>

definition real_prediction :: "predictor \<Rightarrow> net_output \<Rightarrow> exn + prediction" where
  "real_prediction p out =
     (let names = class_names p
      in if \<not> top_class out < length names then Inl (IndexError ''list index out of range'')
         else if length (softmax out) < length names then Inl (IndexError ''index out of bounds'')
         else Inr \<lparr>predicted_class = names ! top_class out,
                   confidence = py_round (top_prob out * 100) 2,
                   probabilities =
                     map (\<lambda>i. (names ! i, py_round (softmax out ! i * 100) 2))
                       [0 ..< length names]\<rparr>)"

text \<open>
  \<open>predict_single_image\<close>. The state is the number of stand-in predictions drawn so
  far. The result carries the origin of the prediction beside the prediction itself.
\<close>

definition predict_single_image ::
  "predictor \<Rightarrow> classifier_env \<Rightarrow> string \<Rightarrow> nat \<Rightarrow> (exn + origin \<times> prediction) \<times> nat" where
  "predict_single_image p env path k =
     (let mock = (case mock_prediction p env k of
                    Inl e \<Rightarrow> (Inl e, Suc k)
                  | Inr pr \<Rightarrow> (Inr (StandIn, pr), Suc k))
      in if \<not> is_available p then mock
         else case forward env path of
                Inl e \<Rightarrow> mock
              | Inr out \<Rightarrow>
                  (case real_prediction p out of
                     Inl e \<Rightarrow> mock
                   | Inr pr \<Rightarrow> (Inr (RealModel, pr), k)))"

text \<open>
  The loop of \<open>predict_patient\<close> over \<open>enumerate(image_paths, 1)\<close>: an image whose
  prediction raises is skipped.
\<close>

fun collect_predictions ::
  "predictor \<Rightarrow> classifier_env \<Rightarrow> nat \<Rightarrow> string list \<Rightarrow> nat \<Rightarrow>
   (origin \<times> individual_prediction) list" where
  "collect_predictions p env i [] k = []"
| "collect_predictions p env i (img_path # rest) k =
     (case predict_single_image p env img_path k of
        (Inl e, k') \<Rightarrow> collect_predictions p env (Suc i) rest k'
      | (Inr (og, pr), k') \<Rightarrow>
          (og, \<lparr>predicted_class = predicted_class pr,
                confidence = confidence pr,
                probabilities = probabilities pr,
                image_index = i,
                image_path = basename env img_path\<rparr>)
          # collect_predictions p env (Suc i) rest k')"

text \<open>The local variables of \<open>predict_patient\<close> after the loop (lines 185 to 197).\<close>

definition consensus_strength_unrounded :: "nat \<Rightarrow> nat \<Rightarrow> real" where
  "consensus_strength_unrounded votes_for_final n = (real votes_for_final / real n) * 100"

definition confidences_for_final :: "individual_prediction list \<Rightarrow> string \<Rightarrow> real list" where
  "confidences_for_final preds final_diagnosis =
     map confidence (filter (\<lambda>pred. predicted_class pred = final_diagnosis) preds)"

definition avg_confidence :: "individual_prediction list \<Rightarrow> string \<Rightarrow> real" where
  "avg_confidence preds final_diagnosis =
     (let cs = confidences_for_final preds final_diagnosis
      in if cs \<noteq> [] then np_mean cs else 0)"

definition vote_distribution_of ::
  "string list \<Rightarrow> (string \<times> nat) list \<Rightarrow> nat \<Rightarrow> (string \<times> vote) list" where
  "vote_distribution_of names vote_counts n =
     map (\<lambda>cls. (cls, \<lparr>count = counter_get vote_counts cls,
                       percentage =
                         py_round ((real (counter_get vote_counts cls) / real n) * 100) 1\<rparr>))
       names"

definition dict_get_default :: "(string \<times> string) list \<Rightarrow> string \<Rightarrow> string \<Rightarrow> string" where
  "dict_get_default d k dflt = (case map_of d k of None \<Rightarrow> dflt | Some v \<Rightarrow> v)"

text \<open>The part of \<open>predict_patient\<close> after the loop (lines 182 to 219).\<close>

definition aggregate :: "string list \<Rightarrow> individual_prediction list \<Rightarrow> exn + patient_result" where
  "aggregate names preds =
     (let predicted_classes = map predicted_class preds
      in if predicted_classes = [] then Inl (PyException ''No images were successfully processed'')
         else
           let vote_counts = Counter predicted_classes
           in case most_common1 vote_counts of
                [] \<Rightarrow> Inl (IndexError ''list index out of range'')
              | (final_diagnosis, _) # _ \<Rightarrow>
                  let votes_for_final = counter_get vote_counts final_diagnosis;
                      n = length predicted_classes
                  in Inr \<lparr>patient_diagnosis = final_diagnosis,
                          diagnosis_label =
                            dict_get_default CLASS_LABELS final_diagnosis final_diagnosis,
                          patient_confidence = py_round (avg_confidence preds final_diagnosis) 2,
                          vote_distribution = vote_distribution_of names vote_counts n,
                          individual_predictions = preds,
                          consensus_strength =
                            py_round (consensus_strength_unrounded votes_for_final n) 1,
                          total_images_processed = n\<rparr>)"

definition predict_patient ::
  "predictor \<Rightarrow> classifier_env \<Rightarrow> string list \<Rightarrow> nat \<Rightarrow> exn + patient_result" where
  "predict_patient p env image_paths k =
     (if image_paths = [] then Inl (ValueError ''No image paths provided'')
      else aggregate (class_names p) (map snd (collect_predictions p env 1 image_paths k)))"

text \<open>
  The keys of the tally in the order of their first occurrence: the iteration order of
  \<open>Counter(xs)\<close>.
\<close>

fun firsts :: "string list \<Rightarrow> string list" where
  "firsts [] = []"
| "firsts (x # xs) = x # removeAll x (firsts xs)"

section \<open>Comparison with normative ranges (\<open>ml_runner.get_volume_comparison\<close>)\<close>

record norm_range =
  norm_min :: real
  norm_max :: real
  norm_unit :: string

text \<open>\<open>NORMATIVE_VOLUMES\<close> of \<open>config.py\<close>; the unit is cubic centimetres.\<close>

definition NORMATIVE_VOLUMES :: "(string \<times> norm_range) list" where
  "NORMATIVE_VOLUMES =
     [(''total_brain'', \<lparr>norm_min = 1100, norm_max = 1400, norm_unit = ''cm3''\<rparr>),
      (''gray_matter'', \<lparr>norm_min = 450, norm_max = 600, norm_unit = ''cm3''\<rparr>),
      (''white_matter'', \<lparr>norm_min = 400, norm_max = 550, norm_unit = ''cm3''\<rparr>),
      (''csf'', \<lparr>norm_min = 150, norm_max = 300, norm_unit = ''cm3''\<rparr>),
      (''hippocampus'', \<lparr>norm_min = 3, norm_max = 9 / 2, norm_unit = ''cm3''\<rparr>),
      (''ventricles'', \<lparr>norm_min = 20, norm_max = 50, norm_unit = ''cm3''\<rparr>)]"

record comparison =
  measured :: real
  min_normal :: real
  max_normal :: real
  unit_name :: string
  status :: string
  deviation_percent :: real

text \<open>Python's \<open>/\<close> on numbers raises on a zero divisor.\<close>

definition py_div :: "real \<Rightarrow> real \<Rightarrow> exn + real" where
  "py_div a b = (if b = 0 then Inl (ZeroDivisionError ''division by zero'') else Inr (a / b))"

text \<open>
  The body of the loop of \<open>get_volume_comparison\<close> for a value that is not \<open>None\<close>
  (lines 183 to 196): the status and the local variable \<open>deviation\<close>, then the entry.
\<close>

definition status_and_deviation :: "real \<Rightarrow> norm_range \<Rightarrow> exn + string \<times> real" where
  "status_and_deviation v nr =
     (if v < norm_min nr then
        (case py_div (norm_min nr - v) (norm_min nr) of
           Inl e \<Rightarrow> Inl e
         | Inr q \<Rightarrow> Inr (''Below Normal'', q * 100))
      else if v > norm_max nr then
        (case py_div (v - norm_max nr) (norm_max nr) of
           Inl e \<Rightarrow> Inl e
         | Inr q \<Rightarrow> Inr (''Above Normal'', q * 100))
      else
        (let mid = (norm_min nr + norm_max nr) / 2
         in case py_div (v - mid) mid of
              Inl e \<Rightarrow> Inl e
            | Inr q \<Rightarrow> Inr (''Normal'', q * 100)))"

definition compare_to_norm :: "real \<Rightarrow> norm_range \<Rightarrow> exn + comparison" where
  "compare_to_norm v nr =
     (case status_and_deviation v nr of
        Inl e \<Rightarrow> Inl e
      | Inr (st, deviation) \<Rightarrow>
          Inr \<lparr>measured = v, min_normal = norm_min nr, max_normal = norm_max nr,
               unit_name = norm_unit nr, status = st,
               deviation_percent = py_round \<bar>deviation\<bar> 1\<rparr>)"

definition volume_mappings :: "(string \<times> string) list" where
  "volume_mappings =
     [(''total_brain'', ''brain_volume''),
      (''gray_matter'', ''gm_volume''),
      (''white_matter'', ''wm_volume''),
      (''csf'', ''csf_volume''),
      (''hippocampus'', ''hippocampal_volume'')]"

text \<open>
  The loop over \<open>volume_mappings\<close>; the measured volumes are the numeric entries of
  \<open>ml_results\<close>, a missing key reads as \<open>None\<close> and is skipped.
\<close>

fun compare_all ::
  "(string \<rightharpoonup> real) \<Rightarrow> (string \<times> string) list \<Rightarrow> exn + (string \<times> comparison) list" where
  "compare_all ml_results [] = Inr []"
| "compare_all ml_results ((name, key) # rest) =
     (case ml_results key of
        None \<Rightarrow> compare_all ml_results rest
      | Some v \<Rightarrow>
          (case map_of NORMATIVE_VOLUMES name of
             None \<Rightarrow> Inl (PyException ''KeyError'')
           | Some nr \<Rightarrow>
               (case compare_to_norm v nr of
                  Inl e \<Rightarrow> Inl e
                | Inr c \<Rightarrow>
                    (case compare_all ml_results rest of
                       Inl e \<Rightarrow> Inl e
                     | Inr cs \<Rightarrow> Inr ((name, c) # cs)))))"

definition get_volume_comparison ::
  "(string \<rightharpoonup> real) \<Rightarrow> exn + (string \<times> comparison) list" where
  "get_volume_comparison ml_results = compare_all ml_results volume_mappings"

section \<open>Tissue volumes (\<open>volumetric_analyzer.extract_volumes_from_nifti\<close>)\<close>

text \<open>
  A loaded NIfTI image: the voxel values of \<open>get_fdata()\<close> in some fixed order and the
  voxel spacings \<open>header.get_zooms()\<close> in millimetres.
\<close>

record nifti_image =
  voxels :: "real list"
  zooms :: "real list"

record volumes =
  brain :: real
  gm :: real
  wm :: real
  csf :: real
  hippo :: real
  ventricles :: real

text \<open>The local variables of lines 44 to 77.\<close>

record volume_locals =
  gm_volume_cm3 :: real
  wm_volume_cm3 :: real
  wm_from_real :: bool
  total_brain :: real

definition measure_volumes ::
  "(string \<Rightarrow> exn + nifti_image) \<Rightarrow> string \<Rightarrow> string option \<Rightarrow> exn + volume_locals" where
  "measure_volumes load mwp1_path mwp2_path =
     (case load mwp1_path of
        Inl e \<Rightarrow> Inl e
      | Inr gm_img \<Rightarrow>
          let voxel_volume_mm3 = prod_list (take 3 (zooms gm_img));
              gm_vol = sum_list (voxels gm_img) * voxel_volume_mm3 / 1000;
              wm_loaded =
                (case mwp2_path of
                   None \<Rightarrow> None
                 | Some path \<Rightarrow>
                     if path = [] then None
                     else (case load path of
                             Inl e \<Rightarrow> None
                           | Inr wm_img \<Rightarrow>
                               let wm_voxel_volume = prod_list (take 3 (zooms wm_img))
                               in Some (sum_list (voxels wm_img) * wm_voxel_volume / 1000)));
              wm_vol = (case wm_loaded of None \<Rightarrow> gm_vol * (88 / 100) | Some w \<Rightarrow> w)
          in Inr \<lparr>gm_volume_cm3 = gm_vol,
                  wm_volume_cm3 = wm_vol,
                  wm_from_real = (wm_loaded \<noteq> None),
                  total_brain = gm_vol + wm_vol\<rparr>)"

definition extract_volumes_from_nifti ::
  "(string \<Rightarrow> exn + nifti_image) \<Rightarrow> string \<Rightarrow> string option \<Rightarrow> exn + volumes" where
  "extract_volumes_from_nifti load mwp1_path mwp2_path =
     (case measure_volumes load mwp1_path mwp2_path of
        Inl e \<Rightarrow> Inl e
      | Inr loc \<Rightarrow>
          let tbv_ratio = (if total_brain loc > 0 then total_brain loc / 1250 else 1);
              csf_estimated = 200 * tbv_ratio;
              hippo_estimated = (38 / 10) * tbv_ratio;
              ventricles_estimated = 35 * tbv_ratio
          in Inr \<lparr>brain = py_round (total_brain loc) 2,
                  gm = py_round (gm_volume_cm3 loc) 2,
                  wm = py_round (wm_volume_cm3 loc) 2,
                  csf = py_round csf_estimated 2,
                  hippo = py_round hippo_estimated 2,
                  ventricles = py_round ventricles_estimated 2\<rparr>)"

section \<open>Intensity normalisation (\<open>NIfTISlicer._normalize_intensity\<close>)\<close>

text \<open>
  \<open>numpy.percentile(data, q)\<close> with the default linear interpolation, over the voxels of
  the volume in any order: the position \<open>(n - 1) * q / 100\<close> in the sorted values,
  interpolated between its two neighbours. It is used on non-empty volumes.
\<close>

definition np_percentile :: "real list \<Rightarrow> real \<Rightarrow> real" where
  "np_percentile xs q =
     (let srt = sort xs;
          n = length xs;
          h = real (n - 1) * q / 100;
          lo = nat \<lfloor>h\<rfloor>;
          hi = min (lo + 1) (n - 1);
          gamma = h - real lo
      in srt ! lo + gamma * (srt ! hi - srt ! lo))"

definition np_clip :: "real \<Rightarrow> real \<Rightarrow> real \<Rightarrow> real" where
  "np_clip v a_min a_max = min (max v a_min) a_max"

text \<open>
  The percentile of an empty volume is not a number: the comparison with zero fails, and
  clipping and scaling an empty array give an empty array.
\<close>

definition normalize_intensity :: "real list \<Rightarrow> real list" where
  "normalize_intensity data =
     (if data = [] then []
      else
        let p99 = np_percentile data 99
        in if p99 = 0 then data
           else map (\<lambda>v. (np_clip v 0 p99 / p99) * 255) data)"

section \<open>The three-step pipeline (\<open>ml_runner.run_model\<close>)\<close>

text \<open>The dicts passed between the stages: keys in insertion order, with Python values.\<close>

datatype pyval = PNone | PBool bool | PNum real | PStr string | PList "pyval list"

type_synonym pydict = "(string \<times> pyval) list"

definition dict_get :: "pydict \<Rightarrow> string \<Rightarrow> pyval option" where
  "dict_get d k = map_of d k"

fun truthy :: "pyval \<Rightarrow> bool" where
  "truthy PNone = False"
| "truthy (PBool b) = b"
| "truthy (PNum x) = (x \<noteq> 0)"
| "truthy (PStr s) = (s \<noteq> [])"
| "truthy (PList xs) = (xs \<noteq> [])"

fun str_exn :: "exn \<Rightarrow> string" where
  "str_exn (ValueError m) = m"
| "str_exn (IndexError m) = m"
| "str_exn (ZeroDivisionError m) = m"
| "str_exn (ImportError m) = m"
| "str_exn (PyException m) = m"

fun is_import_error :: "exn \<Rightarrow> bool" where
  "is_import_error (ImportError m) = True"
| "is_import_error e = False"

text \<open>\<open>pat in s\<close> for strings.\<close>

fun str_contains :: "string \<Rightarrow> string \<Rightarrow> bool" where
  "str_contains pat [] = (pat = [])"
| "str_contains pat (c # cs) = (take (length pat) (c # cs) = pat \<or> str_contains pat cs)"

text \<open>\<open>s.replace(old, new)\<close> for a non-empty \<open>old\<close>.\<close>

function str_replace :: "string \<Rightarrow> string \<Rightarrow> string \<Rightarrow> string" where
  "str_replace old new s =
     (if s = [] \<or> old = [] then s
      else if take (length old) s = old then new @ str_replace old new (drop (length old) s)
      else hd s # str_replace old new (tl s))"
  by pat_completeness auto
termination
  by (relation "measure (\<lambda>(old, new, s). length s)") (auto simp: neq_Nil_conv)

definition error_response :: "string \<Rightarrow> pydict" where
  "error_response msg =
     [(''prediction'', PStr ''Error''), (''confidence'', PNum 0),
      (''probabilities'', PList [PNum 0, PNum 0, PNum 0]),
      (''classes'', PList [PStr ''Error'']), (''brain_volume'', PNum 0),
      (''processing_time'', PNum 0), (''error_details'', PStr msg)]"

definition generate_consistent_volumes :: "string \<Rightarrow> volumes" where
  "generate_consistent_volumes label =
     (let base = 1300;
          factor = (if label = ''AD'' then 85 / 100 else if label = ''MCI'' then 92 / 100 else 1)
      in \<lparr>brain = base * factor, gm = base * (45 / 100) * factor,
          wm = base * (40 / 100) * factor, csf = base * (15 / 100) * (2 - factor),
          hippo = 4 * factor, ventricles = 30 * (2 - factor)\<rparr>)"

definition ANALYSIS_TYPES :: "(string \<times> string list) list" where
  "ANALYSIS_TYPES =
     [(''multi-disease'', [''CN'', ''MCI'', ''AD'']), (''ad-only'', [''CN'', ''AD''])]"

text \<open>
  The stages of a run, recorded in the order in which their code is entered. The source
  keeps no such record; it is what an observer of the run would see.
\<close>

datatype stage =
    Preprocess
  | SliceExtraction
  | Inference
  | MockRunner
  | Volumetrics
  | VolumeEstimate
  | StatusWrite string
  | PredictionRecord
  | ViewerSlices
  | Similarity
  | Charts
  | ChartUpload string
  | ReportData
  | Report string
  | ReportUrlsWrite
  | StorageCleanup string
  | TempFileRemoval

text \<open>
  The surroundings of \<open>run_model\<close>: the two configuration switches, the file system, and
  the outcomes of the external collaborators (the stand-in runner, CAT12, the slicer of
  lines 65 to 80 for a processed path, the predictor factory, the NIfTI loader, the clock).
\<close>

record ml_env =
  use_mock_model :: bool
  use_cat12_preprocessing :: bool
  run_model_mock :: "string \<Rightarrow> string \<Rightarrow> exn + pydict"
  run_cat12_preprocessing :: "string \<Rightarrow> exn + string option"
  path_exists :: "string \<Rightarrow> bool"
  extract_middle_slices :: "string \<Rightarrow> exn + string list"
  checkpoint_exists :: bool
  create_predictor :: "exn + predictor"
  classifier :: classifier_env
  load_nifti :: "string \<Rightarrow> exn + nifti_image"
  elapsed_ms :: int

text \<open>Step 1 (lines 39 to 57): the processed path and \<open>used_cat12\<close>.\<close>

definition preprocess :: "ml_env \<Rightarrow> string \<Rightarrow> (exn + string \<times> bool) \<times> stage list" where
  "preprocess env scan_path =
     (if use_cat12_preprocessing env then
        (if str_contains ''mwp1'' (basename (classifier env) scan_path)
         then (Inr (scan_path, True), [])
         else (case run_cat12_preprocessing env scan_path of
                 Inl e \<Rightarrow> (Inl e, [Preprocess])
               | Inr mwp1_file \<Rightarrow>
                   (case mwp1_file of
                      None \<Rightarrow> (Inr (scan_path, False), [Preprocess])
                    | Some f \<Rightarrow>
                        if f \<noteq> [] \<and> path_exists env f then (Inr (f, True), [Preprocess])
                        else (Inr (scan_path, False), [Preprocess]))))
      else (Inr (scan_path, False), []))"

text \<open>
  The fallback of the \<open>except\<close> of step 3 (lines 115 to 122): the stand-in runner, and the
  error response if that raises as well.
\<close>

definition inference_fallback :: "ml_env \<Rightarrow> string \<Rightarrow> string \<Rightarrow> exn \<Rightarrow> pydict \<times> stage list" where
  "inference_fallback env scan_path analysis_type e =
     (case run_model_mock env scan_path analysis_type of
        Inl e' \<Rightarrow> (error_response (''Model inference failed: '' @ str_exn e), [MockRunner])
      | Inr d \<Rightarrow> (d, [MockRunner]))"

text \<open>
  Step 3 (lines 95 to 122). \<open>Inl\<close> is a dict that \<open>run_model\<close> returns at once, \<open>Inr\<close>
  the result of \<open>predict_patient\<close> with which the function goes on.
\<close>

definition inference ::
  "ml_env \<Rightarrow> string \<Rightarrow> string \<Rightarrow> string list \<Rightarrow> (pydict + patient_result) \<times> stage list" where
  "inference env scan_path analysis_type slice_paths =
     (let fallback = (\<lambda>e tr. case inference_fallback env scan_path analysis_type e of
                               (d, tr') \<Rightarrow> (Inl d, tr @ tr'))
      in if \<not> checkpoint_exists env then
           (case run_model_mock env scan_path analysis_type of
              Inl e \<Rightarrow> fallback e [MockRunner]
            | Inr d \<Rightarrow> (Inl d, [MockRunner]))
         else
           (case create_predictor env of
              Inl e \<Rightarrow> fallback e []
            | Inr predictor \<Rightarrow>
                if \<not> is_available predictor then
                  (case run_model_mock env scan_path analysis_type of
                     Inl e \<Rightarrow> fallback e [MockRunner]
                   | Inr d \<Rightarrow> (Inl d, [MockRunner]))
                else
                  (case predict_patient predictor (classifier env) slice_paths 0 of
                     Inl e \<Rightarrow> fallback e [Inference]
                   | Inr prediction_result \<Rightarrow> (Inr prediction_result, [Inference]))))"

text \<open>Lines 129 to 135: the probability of every class of the analysis type.\<close>

definition format_probabilities :: "string list \<Rightarrow> string \<Rightarrow> real \<Rightarrow> real list" where
  "format_probabilities classes predicted_label conf =
     (if predicted_label \<in> set classes then
        (let idx = length (takeWhile (\<lambda>c. c \<noteq> predicted_label) classes);
             remainder = (if length classes > 1 then (1 - conf) / real (length classes - 1) else 0)
         in map (\<lambda>i. if i = idx then conf else remainder) [0 ..< length classes])
      else replicate (length classes) 0)"

text \<open>Lines 138 to 150: measured volumes for a processed map, estimates otherwise.\<close>

definition pipeline_volumes :: "ml_env \<Rightarrow> string \<Rightarrow> string \<Rightarrow> volumes \<times> stage list" where
  "pipeline_volumes env processed_path predicted_label =
     (if str_contains ''mwp1'' (basename (classifier env) processed_path) then
        (let replaced = str_replace ''mwp1'' ''mwp2'' processed_path;
             mwp2_path = (if path_exists env replaced then Some replaced else None)
         in case extract_volumes_from_nifti (load_nifti env) processed_path mwp2_path of
              Inl e \<Rightarrow> (generate_consistent_volumes predicted_label, [Volumetrics, VolumeEstimate])
            | Inr v \<Rightarrow> (v, [Volumetrics]))
      else (generate_consistent_volumes predicted_label, [VolumeEstimate]))"

definition success_response ::
  "ml_env \<Rightarrow> string \<Rightarrow> string list \<Rightarrow> string \<Rightarrow> real \<Rightarrow> volumes \<Rightarrow> bool \<Rightarrow> pydict" where
  "success_response env analysis_type classes predicted_label conf v used_cat12 =
     [(''prediction'', PStr predicted_label),
      (''confidence'', PNum conf),
      (''probabilities'', PList (map PNum (format_probabilities classes predicted_label conf))),
      (''classes'', PList (map PStr classes)),
      (''brain_volume'', PNum (brain v)),
      (''gm_volume'', PNum (gm v)),
      (''wm_volume'', PNum (wm v)),
      (''csf_volume'', PNum (csf v)),
      (''hippocampal_volume'', PNum (hippo v)),
      (''ventricular_volume'', PNum (ventricles v)),
      (''processing_time'', PNum (of_int (elapsed_ms env))),
      (''analysis_type'', PStr analysis_type),
      (''used_cat12'', PBool used_cat12),
      (''model_version'', PStr ''ConViT-v1.0''),
      (''status'', PStr ''success'')]"

text \<open>
  \<open>run_model\<close>: \<open>Inl\<close> is an exception that leaves the function, \<open>Inr\<close> the dict it
  returns; beside it the stages that were entered.
\<close>

definition run_model :: "ml_env \<Rightarrow> string \<Rightarrow> string \<Rightarrow> (exn + pydict) \<times> stage list" where
  "run_model env scan_path analysis_type =
     (let mock_first =
            (if use_mock_model env then
               (case run_model_mock env scan_path analysis_type of
                  Inl e \<Rightarrow> if is_import_error e then None else Some (Inl e, [MockRunner])
                | Inr d \<Rightarrow> Some (Inr d, [MockRunner]))
             else None)
      in case mock_first of
           Some r \<Rightarrow> r
         | None \<Rightarrow>
             (case preprocess env scan_path of
                (Inl e, tr1) \<Rightarrow> (Inl e, tr1)
              | (Inr (processed_path, used_cat12), tr1) \<Rightarrow>
                  (case extract_middle_slices env processed_path of
                     Inl e \<Rightarrow>
                       (Inr (error_response (''Slice extraction failed: '' @ str_exn e)),
                        tr1 @ [SliceExtraction])
                   | Inr slice_paths \<Rightarrow>
                       if slice_paths = [] then
                         (Inr (error_response
                                 (''Slice extraction failed: '' @ ''Slicer returned no images.'')),
                          tr1 @ [SliceExtraction])
                       else
                         (case inference env scan_path analysis_type slice_paths of
                            (Inl d, tr3) \<Rightarrow> (Inr d, tr1 @ [SliceExtraction] @ tr3)
                          | (Inr prediction_result, tr3) \<Rightarrow>
                              let classes = (case map_of ANALYSIS_TYPES analysis_type of
                                               None \<Rightarrow> [''CN'', ''MCI'', ''AD'']
                                             | Some cs \<Rightarrow> cs);
                                  predicted_label = patient_diagnosis prediction_result;
                                  conf = patient_confidence prediction_result / 100
                              in case pipeline_volumes env processed_path predicted_label of
                                   (v, tr4) \<Rightarrow>
                                     (Inr (success_response env analysis_type classes
                                             predicted_label conf v used_cat12),
                                      tr1 @ [SliceExtraction] @ tr3 @ tr4)))))"

section \<open>The background run (\<open>routes/predict_api.run_analysis_background\<close>)\<close>

text \<open>
  The surroundings of the background run: whether the storage client can be obtained, the
  surroundings of \<open>run_model\<close>, whether a status update reaches the session record, and
  the outcomes of the collaborators (the insert of the prediction record, the try block
  of lines 105 to 131, the similarity analysis, the two charts, the decoding of lines
  174 to 177, the upload of an object by its path, the rendering of a report in lines 223 to
  239 by its type, and \<open>os.remove\<close>).
\<close>

record bg_env =
  get_supabase_client :: "exn option"
  ml :: ml_env
  db_update_status_ok :: "string \<Rightarrow> bool"
  create_prediction_record :: "pydict \<Rightarrow> string option \<times> string option"
  nibabel_importable :: bool
  extract_and_upload_viewer_slices :: "exn + (string \<times> string list) list"
  run_similarity_analysis :: "pydict \<Rightarrow> exn + pydict"
  generate_volume_comparison_chart :: "pydict \<Rightarrow> exn + pyval"
  generate_confidence_chart :: "pyval \<Rightarrow> pyval \<Rightarrow> exn + pyval"
  decode_image :: "pyval \<Rightarrow> exn + string"
  upload_to_storage :: "string \<Rightarrow> string option"
  render_pdf :: "string \<Rightarrow> pydict \<Rightarrow> exn + string"
  os_remove_ok :: bool

text \<open>
  What a run changes: the status in the session record, the uploaded file in temporary
  storage, the two locals \<open>uploaded_urls\<close> and \<open>report_errors\<close> that are bound before the
  \<open>try\<close>, and the record of the stages.
\<close>

record run_state =
  session_status :: string
  temp_file_present :: bool
  uploaded_urls :: "(string \<times> string) list"
  report_errors :: "string list"
  trace :: "stage list"

definition url_truthy :: "string option \<Rightarrow> bool" where
  "url_truthy u = (case u of None \<Rightarrow> False | Some v \<Rightarrow> v \<noteq> [])"

definition dict_set :: "(string \<times> 'v) list \<Rightarrow> string \<Rightarrow> 'v \<Rightarrow> (string \<times> 'v) list" where
  "dict_set d k v = (if k \<in> fst ` set d then map (\<lambda>(k', v'). if k' = k then (k', v) else (k', v')) d
                     else d @ [(k, v)])"

text \<open>
  \<open>database.update_session_status\<close>: a failing update is caught inside and reported in
  a return value that no caller reads.
\<close>

definition update_session_status :: "bg_env \<Rightarrow> string \<Rightarrow> run_state \<Rightarrow> run_state" where
  "update_session_status env st s =
     s\<lparr>session_status := (if db_update_status_ok env st then st else session_status s),
       trace := trace s @ [StatusWrite st]\<rparr>"

definition lower_char :: "char \<Rightarrow> char" where
  "lower_char c =
     (let n = (of_char c :: nat) in if 65 \<le> n \<and> n \<le> 90 then char_of (n + 32) else c)"

definition endswith :: "string \<Rightarrow> string \<Rightarrow> bool" where
  "endswith s suf = (length suf \<le> length s \<and> drop (length s - length suf) s = suf)"

text \<open>Step 1.5 (lines 86 to 140): nothing in it leaves the step as an exception.\<close>

definition viewer_slices :: "bg_env \<Rightarrow> string \<Rightarrow> (string \<times> string list) list \<times> stage list" where
  "viewer_slices env file_path =
     (let lowered = map lower_char file_path;
          is_nifti = (endswith lowered ''.nii'' \<or> endswith lowered ''.nii.gz''
                       \<or> endswith lowered ''.gz'');
          is_nifti = (is_nifti \<and> nibabel_importable env)
      in if is_nifti then
           (case extract_and_upload_viewer_slices env of
              Inl e \<Rightarrow> ([], [ViewerSlices])
            | Inr slice_urls \<Rightarrow> (slice_urls, [ViewerSlices]))
         else ([], []))"

text \<open>The body of the loop of step 4 (lines 170 to 186).\<close>

definition upload_visualization ::
  "bg_env \<Rightarrow> pyval \<times> string \<times> string \<Rightarrow> run_state \<Rightarrow> run_state" where
  "upload_visualization env viz s =
     (case viz of
        (img_data, path, url_key) \<Rightarrow>
          if truthy img_data then
            (case decode_image env img_data of
               Inl e \<Rightarrow>
                 (s\<lparr>report_errors := report_errors s @ [url_key @ '' upload failed''],
                    trace := trace s @ [ChartUpload url_key]\<rparr>)
             | Inr img_bytes \<Rightarrow>
                 (case upload_to_storage env path of
                    None \<Rightarrow> (s\<lparr>trace := trace s @ [ChartUpload url_key]\<rparr>)
                  | Some url \<Rightarrow>
                      (if url \<noteq> [] then
                         (s\<lparr>uploaded_urls := dict_set (uploaded_urls s) url_key url,
                            trace := trace s @ [ChartUpload url_key]\<rparr>)
                       else (s\<lparr>trace := trace s @ [ChartUpload url_key]\<rparr>))))
          else s)"

text \<open>The body of the loop of step 6 (lines 217 to 255).\<close>

definition generate_report ::
  "bg_env \<Rightarrow> string \<Rightarrow> pydict \<Rightarrow> string \<times> string \<Rightarrow> run_state \<Rightarrow> run_state" where
  "generate_report env asset_prefix ml_results cfg s =
     (case cfg of
        (pdf_type, url_key) \<Rightarrow>
          (let pdf_path = asset_prefix @ ''/'' @ pdf_type @ ''_report.pdf'';
               s1 = s\<lparr>trace := trace s @ [Report pdf_type]\<rparr>
           in case render_pdf env pdf_type ml_results of
                Inl e \<Rightarrow> (s1\<lparr>report_errors := report_errors s1 @ [pdf_type @ '' PDF failed'']\<rparr>)
              | Inr pdf_bytes \<Rightarrow>
                  (case upload_to_storage env pdf_path of
                     None \<Rightarrow>
                       (s1\<lparr>report_errors := report_errors s1 @ [pdf_type @ '' upload failed'']\<rparr>)
                   | Some url \<Rightarrow>
                       (if url \<noteq> [] then
                          (s1\<lparr>uploaded_urls := dict_set (uploaded_urls s1) url_key url\<rparr>)
                        else
                          (s1\<lparr>report_errors :=
                                report_errors s1 @ [pdf_type @ '' upload failed'']\<rparr>)))))"

definition pdf_configs :: "(string \<times> string) list" where
  "pdf_configs =
     [(''technical'', ''technical_pdf_url''),
      (''clinician'', ''clinician_pdf_url''),
      (''patient'', ''patient_pdf_url'')]"

text \<open>Lines 263 to 277: the decision on the final status.\<close>

definition has_any_report :: "(string \<times> string) list \<Rightarrow> bool" where
  "has_any_report urls =
     (url_truthy (map_of urls ''technical_pdf_url'')
      \<or> url_truthy (map_of urls ''clinician_pdf_url'')
      \<or> url_truthy (map_of urls ''patient_pdf_url''))"

definition final_status :: "(string \<times> string) list \<Rightarrow> string list \<Rightarrow> string" where
  "final_status urls errors =
     (if errors \<noteq> [] \<and> \<not> has_any_report urls then ''failed''
      else if errors \<noteq> [] then ''completed''
      else ''completed'')"

text \<open>Steps 4 to 7 (lines 162 to 294), in which no exception leaves its step.\<close>

definition reports_and_status ::
  "bg_env \<Rightarrow> string \<Rightarrow> pydict \<Rightarrow> pyval \<Rightarrow> pyval \<Rightarrow> pyval \<Rightarrow> run_state \<Rightarrow> run_state" where
  "reports_and_status env session_id ml_results similarity_plot volume_chart confidence_chart s =
     (let asset_prefix = ''report_assets/'' @ session_id;
          visualizations =
            [(similarity_plot, asset_prefix @ ''/similarity_plot.png'', ''similarity_plot_url''),
             (volume_chart, asset_prefix @ ''/volume_chart.png'', ''volume_chart_url''),
             (confidence_chart, asset_prefix @ ''/confidence_chart.png'', ''confidence_chart_url'')];
          s = fold (upload_visualization env) visualizations s;
          s = s\<lparr>trace := trace s @ [ReportData]\<rparr>;
          s = fold (generate_report env asset_prefix ml_results) pdf_configs s;
          status_decided = final_status (uploaded_urls s) (report_errors s);
          s = s\<lparr>trace := trace s @ [ReportUrlsWrite]\<rparr>
      in update_session_status env status_decided s)"

text \<open>
  Steps 3 to 7 (lines 152 to 294): \<open>Some e\<close> is an exception that reaches the
  \<open>except\<close> clause.
\<close>

definition chart_arguments :: "pydict \<Rightarrow> pyval \<times> pyval" where
  "chart_arguments ml_results =
     (case dict_get ml_results ''probabilities'' of None \<Rightarrow> PList [] | Some v \<Rightarrow> v,
      case dict_get ml_results ''classes'' of
        None \<Rightarrow> PList [PStr ''CN'', PStr ''MCI'', PStr ''AD'']
      | Some v \<Rightarrow> v)"

definition chart_stages ::
  "bg_env \<Rightarrow> string \<Rightarrow> pydict \<Rightarrow> pydict \<Rightarrow> run_state \<Rightarrow> exn option \<times> run_state" where
  "chart_stages env session_id ml_results similarity_results s0 =
     (let similarity_plot = (case dict_get similarity_results ''plot_base64'' of
                               None \<Rightarrow> PNone | Some v \<Rightarrow> v);
          s = s0\<lparr>trace := trace s0 @ [Charts]\<rparr>
      in case generate_volume_comparison_chart env ml_results of
           Inl e \<Rightarrow> (Some e, s)
         | Inr volume_chart \<Rightarrow>
             (case chart_arguments ml_results of
                (probs, classes) \<Rightarrow>
                  (case generate_confidence_chart env probs classes of
                     Inl e \<Rightarrow> (Some e, s)
                   | Inr confidence_chart \<Rightarrow>
                       (None, reports_and_status env session_id ml_results similarity_plot
                                volume_chart confidence_chart s))))"

text \<open>Steps 1.5 and 2 (lines 86 to 147), followed by the later steps.\<close>

definition analysis_stages ::
  "bg_env \<Rightarrow> string \<Rightarrow> string \<Rightarrow> pydict \<Rightarrow> run_state \<Rightarrow> exn option \<times> run_state" where
  "analysis_stages env session_id file_path ml_results s0 =
     (case viewer_slices env file_path of
        (slice_urls, tr) \<Rightarrow>
          (let s = s0\<lparr>trace := trace s0 @ tr @ [Similarity]\<rparr>
           in case run_similarity_analysis env ml_results of
                Inl e \<Rightarrow> (Some e, s)
              | Inr similarity_results \<Rightarrow>
                  chart_stages env session_id ml_results similarity_results s))"

text \<open>The body of the \<open>try\<close> (lines 65 to 294).\<close>

definition try_body ::
  "bg_env \<Rightarrow> string \<Rightarrow> string \<Rightarrow> string \<Rightarrow> run_state \<Rightarrow> exn option \<times> run_state" where
  "try_body env session_id file_path analysis_type s0 =
     (let s = update_session_status env ''processing'' s0
      in case run_model (ml env) file_path analysis_type of
           (Inl e, tr) \<Rightarrow> (Some e, s\<lparr>trace := trace s @ tr\<rparr>)
         | (Inr ml_results, tr) \<Rightarrow>
             (let s1 = s\<lparr>trace := trace s @ tr @ [PredictionRecord]\<rparr>
              in case create_prediction_record env ml_results of
                   (prediction_id, err) \<Rightarrow>
                     (case err of
                        None \<Rightarrow> analysis_stages env session_id file_path ml_results s1
                      | Some msg \<Rightarrow>
                          if msg \<noteq> [] then
                            (Some (PyException (''Failed to create prediction: '' @ msg)), s1)
                          else analysis_stages env session_id file_path ml_results s1)))"

text \<open>The \<open>except\<close> clause (lines 296 to 311).\<close>

definition except_handler :: "bg_env \<Rightarrow> run_state \<Rightarrow> run_state" where
  "except_handler env s =
     (let s = update_session_status env ''failed'' s
      in s\<lparr>trace := trace s @ map (\<lambda>kv. StorageCleanup (snd kv)) (uploaded_urls s)\<rparr>)"

text \<open>The \<open>finally\<close> clause (lines 313 to 319): a failing removal is ignored.\<close>

definition finally_cleanup :: "bg_env \<Rightarrow> run_state \<Rightarrow> run_state" where
  "finally_cleanup env s =
     (if temp_file_present s then
        (if os_remove_ok env
         then s\<lparr>temp_file_present := False, trace := trace s @ [TempFileRemoval]\<rparr>
         else s\<lparr>trace := trace s @ [TempFileRemoval]\<rparr>)
      else s)"

text \<open>
  \<open>run_analysis_background\<close>, started with empty \<open>uploaded_urls\<close> and \<open>report_errors\<close>.
  The first component is an exception that leaves the function.
\<close>

definition run_analysis_background ::
  "bg_env \<Rightarrow> string \<Rightarrow> string \<Rightarrow> string \<Rightarrow> run_state \<Rightarrow> exn option \<times> run_state" where
  "run_analysis_background env session_id file_path analysis_type s0 =
     (case get_supabase_client env of
        Some e \<Rightarrow> (Some e, s0)
      | None \<Rightarrow>
          (case try_body env session_id file_path analysis_type
                  (s0\<lparr>uploaded_urls := [], report_errors := []\<rparr>) of
             (None, s) \<Rightarrow> (None, finally_cleanup env s)
           | (Some e, s) \<Rightarrow> (None, finally_cleanup env (except_handler env s))))"

section \<open>What the specification calls a generated report\<close>

text \<open>
  A report of a type is generated successfully when it is rendered without an exception
  and its upload returns a URL.
\<close>

definition report_generated :: "bg_env \<Rightarrow> string \<Rightarrow> pydict \<Rightarrow> string \<Rightarrow> bool" where
  "report_generated env session_id ml_results pdf_type =
     (case render_pdf env pdf_type ml_results of
        Inl e \<Rightarrow> False
      | Inr pdf_bytes \<Rightarrow>
          url_truthy (upload_to_storage env
            (''report_assets/'' @ session_id @ ''/'' @ pdf_type @ ''_report.pdf'')))"

definition any_report_generated :: "bg_env \<Rightarrow> string \<Rightarrow> pydict \<Rightarrow> bool" where
  "any_report_generated env session_id ml_results =
     (report_generated env session_id ml_results ''technical''
      \<or> report_generated env session_id ml_results ''clinician''
      \<or> report_generated env session_id ml_results ''patient'')"

text \<open>
  The stages before the reports raise nothing: \<open>run_model\<close> returns a dict, the
  prediction record is created without an error message, and the similarity analysis and
  the two charts return.
\<close>

definition reaches_reports :: "bg_env \<Rightarrow> string \<Rightarrow> string \<Rightarrow> pydict \<Rightarrow> bool" where
  "reaches_reports env file_path analysis_type ml_results =
     (fst (run_model (ml env) file_path analysis_type) = Inr ml_results
      \<and> \<not> url_truthy (snd (create_prediction_record env ml_results))
      \<and> returns (run_similarity_analysis env ml_results)
      \<and> returns (generate_volume_comparison_chart env ml_results)
      \<and> returns (generate_confidence_chart env (fst (chart_arguments ml_results))
                (snd (chart_arguments ml_results))))"

text \<open>
  The status that the specification asks for once the reports have been attempted:
  \<open>failed\<close> if no report was generated, \<open>completed\<close> otherwise.
\<close>

definition decided_status :: "bg_env \<Rightarrow> string \<Rightarrow> pydict \<Rightarrow> string" where
  "decided_status env sid mlr = (if any_report_generated env sid mlr then ''completed'' else ''failed'')"

text \<open>The events that the uploads of the three charts in step 4 can leave.\<close>

definition chart_upload_events :: "stage set" where
  "chart_upload_events =
     {ChartUpload ''similarity_plot_url'', ChartUpload ''volume_chart_url'',
      ChartUpload ''confidence_chart_url''}"

text \<open>
  The real inference of a slice succeeds when the forward pass returns and its output
  indexes the class names and the softmax row within range.
\<close>

definition inference_succeeds :: "predictor \<Rightarrow> classifier_env \<Rightarrow> string \<Rightarrow> bool" where
  "inference_succeeds p env path =
     (case forward env path of Inl e \<Rightarrow> False | Inr out \<Rightarrow> returns (real_prediction p out))"

text \<open>
  The origin that the handling of errors in \<open>predict_single_image\<close> gives the prediction
  of a slice: the real model when the predictor is available and the real inference of the
  slice succeeds, the stand-in generator otherwise.
\<close>

definition expected_origin :: "predictor \<Rightarrow> classifier_env \<Rightarrow> string \<Rightarrow> origin" where
  "expected_origin p env path =
     (if is_available p \<and> inference_succeeds p env path then RealModel else StandIn)"

text \<open>The entry of a slice in \<open>individual_predictions\<close> holds the values of a prediction.\<close>

definition carries :: "individual_prediction \<Rightarrow> prediction \<Rightarrow> bool" where
  "carries ip pr =
     (predicted_class ip = predicted_class pr \<and> confidence ip = confidence pr
      \<and> probabilities ip = probabilities pr)"

section \<open>Scenarios\<close>

text \<open>
  A classifier whose network recognises four slice images and fails on every other path,
  with fixed draws of the random generators.
\<close>

definition posix_basename :: "string \<Rightarrow> string" where
  "posix_basename p = rev (takeWhile (\<lambda>c. c \<noteq> CHR ''/'') (rev p))"

definition demo_forward :: "string \<Rightarrow> exn + net_output" where
  "demo_forward path =
     (if path = ''slices/slice_1.png'' then
        Inr \<lparr>top_class = 0, top_prob = 9 / 10, softmax = [9 / 10, 6 / 100, 4 / 100]\<rparr>
      else if path = ''slices/slice_2.png'' then
        Inr \<lparr>top_class = 0, top_prob = 7 / 10, softmax = [7 / 10, 2 / 10, 1 / 10]\<rparr>
      else if path = ''slices/slice_3.png'' then
        Inr \<lparr>top_class = 1, top_prob = 95 / 100, softmax = [3 / 100, 95 / 100, 2 / 100]\<rparr>
      else if path = ''slices/slice_4.png'' then
        Inr \<lparr>top_class = 2, top_prob = 8 / 10, softmax = [1 / 10, 1 / 10, 8 / 10]\<rparr>
      else Inl (PyException ''cannot identify image file''))"

definition demo_classifier :: classifier_env where
  "demo_classifier =
     \<lparr>forward = demo_forward,
      random_choice = (\<lambda>k. 1),
      dirichlet = (\<lambda>k. [1 / 5, 3 / 5, 1 / 5]),
      basename = posix_basename\<rparr>"

text \<open>The three per-slice predictions \<open>AD(0.9)\<close>, \<open>AD(0.7)\<close> and \<open>CN(0.95)\<close>.\<close>

definition example_predictions :: "individual_prediction list" where
  "example_predictions =
     [\<lparr>predicted_class = ''AD'', confidence = 9 / 10, probabilities = [],
       image_index = 1, image_path = ''slice_1.png''\<rparr>,
      \<lparr>predicted_class = ''AD'', confidence = 7 / 10, probabilities = [],
       image_index = 2, image_path = ''slice_2.png''\<rparr>,
      \<lparr>predicted_class = ''CN'', confidence = 95 / 100, probabilities = [],
       image_index = 3, image_path = ''slice_3.png''\<rparr>]"

text \<open>The sum of the percentages of a vote distribution.\<close>

definition percentage_total :: "patient_result \<Rightarrow> real" where
  "percentage_total r = sum_list (map (\<lambda>cv. percentage (snd cv)) (vote_distribution r))"

text \<open>The normative range of the total brain volume.\<close>

definition total_brain_range :: norm_range where
  "total_brain_range = \<lparr>norm_min = 1100, norm_max = 1400, norm_unit = ''cm3''\<rparr>"

text \<open>
  A loader that knows a gray-matter map of 400000 voxels of value 1 and a white-matter
  map of 300000 such voxels, both with a voxel spacing of 1.5 mm on every axis.
\<close>

definition demo_load :: "string \<Rightarrow> exn + nifti_image" where
  "demo_load path =
     (if path = ''mri/mwp1scan.nii'' then
        Inr \<lparr>voxels = replicate 400000 1, zooms = [3 / 2, 3 / 2, 3 / 2]\<rparr>
      else if path = ''mri/mwp2scan.nii'' then
        Inr \<lparr>voxels = replicate 300000 1, zooms = [3 / 2, 3 / 2, 3 / 2]\<rparr>
      else Inl (PyException ''No such file''))"

text \<open>
  A deployment in which CAT12 produces no map, the slicer finds three slices in the scan
  of session 1 and none in any other file, the model is loaded, the viewer slices cannot
  be produced, and the database, the storage and the report renderer work.
\<close>

definition demo_ml_env :: ml_env where
  "demo_ml_env =
     \<lparr>use_mock_model = False,
      use_cat12_preprocessing = True,
      run_model_mock = (\<lambda>scan_path analysis_type.
         Inr [(''prediction'', PStr ''CN''), (''confidence'', PNum (7 / 10)),
              (''model_version'', PStr ''mock-v1.0''), (''status'', PStr ''success'')]),
      run_cat12_preprocessing = (\<lambda>scan_path. Inr None),
      path_exists = (\<lambda>path. False),
      extract_middle_slices = (\<lambda>processed_path.
         if processed_path = ''uploads/sess1_scan.nii''
         then Inr [''slices/slice_1.png'', ''slices/slice_2.png'', ''slices/slice_3.png'']
         else Inr []),
      checkpoint_exists = True,
      create_predictor = Inr (new_predictor True),
      classifier = demo_classifier,
      load_nifti = demo_load,
      elapsed_ms = 5230\<rparr>"

definition demo_bg_env :: bg_env where
  "demo_bg_env =
     \<lparr>get_supabase_client = None,
      ml = demo_ml_env,
      db_update_status_ok = (\<lambda>st. True),
      create_prediction_record = (\<lambda>ml_results. (Some ''prediction-1'', None)),
      nibabel_importable = True,
      extract_and_upload_viewer_slices = Inl (PyException ''cannot load volume''),
      run_similarity_analysis = (\<lambda>ml_results. Inr [(''plot_base64'', PStr ''data:image/png;base64,AAAA'')]),
      generate_volume_comparison_chart = (\<lambda>ml_results. Inr (PStr ''data:image/png;base64,BBBB'')),
      generate_confidence_chart = (\<lambda>probs classes. Inr (PStr ''data:image/png;base64,CCCC'')),
      decode_image = (\<lambda>img. case img of PStr s \<Rightarrow> Inr s | _ \<Rightarrow> Inl (PyException ''not a string'')),
      upload_to_storage = (\<lambda>path. Some (''https://storage/'' @ path)),
      render_pdf = (\<lambda>pdf_type ml_results. Inr ''%PDF''),
      os_remove_ok = True\<rparr>"

text \<open>The state in which the API hands a session to the background run.\<close>

definition uploaded_state :: run_state where
  "uploaded_state =
     \<lparr>session_status = ''uploaded'', temp_file_present = True, uploaded_urls = [],
      report_errors = [], trace = []\<rparr>"

text \<open>
  Three variations of the deployment: the upload of the technical report of session 1
  fails; no report can be rendered; the uploaded file cannot be removed.
\<close>

definition partial_report_env :: bg_env where
  "partial_report_env =
     demo_bg_env\<lparr>upload_to_storage := (\<lambda>path.
        if path = ''report_assets/sess1/technical_report.pdf'' then None
        else Some (''https://storage/'' @ path))\<rparr>"

definition no_report_env :: bg_env where
  "no_report_env =
     demo_bg_env\<lparr>render_pdf := (\<lambda>pdf_type ml_results. Inl (PyException ''font not found''))\<rparr>"

definition locked_file_env :: bg_env where
  "locked_file_env = demo_bg_env\<lparr>os_remove_ok := False\<rparr>"

section \<open>The tally and its most common key\<close>

lemmas predictor_defs = predict_patient_def predict_single_image_def real_prediction_def
  mock_prediction_def py_max_def is_available_def new_predictor_def demo_classifier_def
  demo_forward_def posix_basename_def

lemmas aggregate_defs = aggregate_def Counter_def most_common1_def counter_get_def
  consensus_strength_unrounded_def avg_confidence_def confidences_for_final_def np_mean_def
  vote_distribution_of_def dict_get_default_def CLASS_LABELS_def

lemmas round_defs = py_round_def round_half_even_def Let_def

lemma set_firsts: "set (firsts xs) = set xs"
  by (induction xs) auto

lemma distinct_firsts: "distinct (firsts xs)"
  by (induction xs) (auto simp: distinct_removeAll)

lemma firsts_snoc:
  "firsts (xs @ [x]) = (if x \<in> set xs then firsts xs else firsts xs @ [x])"
  by (induction xs) (auto simp: set_firsts)

lemma counter_incr_map:
  "distinct ks \<Longrightarrow>
   counter_incr x (map (\<lambda>k. (k, c k)) ks) =
     (if x \<in> set ks then map (\<lambda>k. (k, if k = x then c k + 1 else c k)) ks
      else map (\<lambda>k. (k, c k)) ks @ [(x, 1)])"
  by (induction ks) auto

lemma Counter_snoc: "Counter (xs @ [x]) = counter_incr x (Counter xs)"
  by (simp add: Counter_def)

lemma Counter_eq: "Counter xs = map (\<lambda>k. (k, count_list xs k)) (firsts xs)"
proof (induction xs rule: rev_induct)
  case Nil
  then show ?case by (simp add: Counter_def)
next
  case (snoc x xs)
  show ?case
    using snoc.IH
    by (auto simp: Counter_snoc counter_incr_map distinct_firsts firsts_snoc set_firsts)
qed

lemma counter_get_Counter: "counter_get (Counter xs) k = count_list xs k"
proof -
  have "map_of (map (\<lambda>k. (k, count_list xs k)) (firsts xs)) k =
        (if k \<in> set xs then Some (count_list xs k) else None)"
    by (simp add: map_of_map_restrict restrict_map_def set_firsts)
  then show ?thesis
    by (auto simp: counter_get_def Counter_eq count_list_0_iff)
qed

lemma max_first_mem: "max_first b kvs \<in> set (b # kvs)"
  by (induction kvs arbitrary: b) auto

lemma max_first_ge: "kv \<in> set (b # kvs) \<Longrightarrow> snd kv \<le> snd (max_first b kvs)"
proof (induction kvs arbitrary: b kv)
  case Nil
  then show ?case by simp
next
  case (Cons a kvs)
  let ?b' = "if snd b < snd a then a else b"
  have b': "snd ?b' \<le> snd (max_first ?b' kvs)"
    using Cons.IH [of ?b' ?b'] by simp
  have rest: "kv \<in> set kvs \<Longrightarrow> snd kv \<le> snd (max_first ?b' kvs)"
    using Cons.IH [of kv ?b'] by simp
  from Cons.prems consider "kv = b" | "kv = a" | "kv \<in> set kvs" by auto
  then show ?case
  proof cases
    case 1
    then show ?thesis using b' by (simp split: if_splits)
  next
    case 2
    then show ?thesis using b' by (simp split: if_splits)
  next
    case 3
    then show ?thesis using rest by simp
  qed
qed

text \<open>Every item that the scan passes before it reaches its result has a smaller count.\<close>

lemma max_first_earlier:
  "kv \<in> set (takeWhile (\<lambda>kv. kv \<noteq> max_first b kvs) (b # kvs)) \<Longrightarrow>
   snd kv < snd (max_first b kvs)"
proof (induction kvs arbitrary: b kv)
  case Nil
  then show ?case by simp
next
  case (Cons a kvs)
  let ?b' = "if snd b < snd a then a else b"
  let ?r = "max_first ?b' kvs"
  have r: "max_first b (a # kvs) = ?r" by simp
  have ge: "snd ?b' \<le> snd ?r" by (rule max_first_ge) simp
  have IH: "\<And>x. x \<in> set (takeWhile (\<lambda>kv. kv \<noteq> ?r) (?b' # kvs)) \<Longrightarrow> snd x < snd ?r"
    by (rule Cons.IH)
  have prem: "kv \<in> set (takeWhile (\<lambda>kv. kv \<noteq> ?r) (b # a # kvs))"
    using Cons.prems by simp
  show ?case
  proof (cases "snd b < snd a")
    case True
    then have b_lt: "snd b < snd ?r" using ge by simp
    then have bne: "b \<noteq> ?r" by auto
    from prem bne have "kv = b \<or> kv \<in> set (takeWhile (\<lambda>kv. kv \<noteq> ?r) (a # kvs))"
      by simp
    then show ?thesis
    proof
      assume "kv = b" then show ?thesis using b_lt r by simp
    next
      assume "kv \<in> set (takeWhile (\<lambda>kv. kv \<noteq> ?r) (a # kvs))"
      then have "kv \<in> set (takeWhile (\<lambda>kv. kv \<noteq> ?r) (?b' # kvs))" using True by simp
      then show ?thesis using IH r by simp
    qed
  next
    case False
    then have b': "?b' = b" by simp
    show ?thesis
    proof (cases "b = ?r")
      case True
      then show ?thesis using prem by simp
    next
      case bne: False
      have b_lt: "snd b < snd ?r"
        using IH [of b] bne b' by simp
      have a_lt: "snd a < snd ?r" using False b_lt by simp
      then have ane: "a \<noteq> ?r" by auto
      from prem bne ane
      have "kv = b \<or> kv = a \<or> kv \<in> set (takeWhile (\<lambda>kv. kv \<noteq> ?r) kvs)"
        by simp
      then show ?thesis
      proof (elim disjE)
        assume "kv = b" then show ?thesis using b_lt r by simp
      next
        assume "kv = a" then show ?thesis using a_lt r by simp
      next
        assume "kv \<in> set (takeWhile (\<lambda>kv. kv \<noteq> ?r) kvs)"
        then have "kv \<in> set (takeWhile (\<lambda>kv. kv \<noteq> ?r) (?b' # kvs))"
          using bne b' by simp
        then show ?thesis using IH r by simp
      qed
    qed
  qed
qed

lemma takeWhile_removeAll:
  "P x \<Longrightarrow> takeWhile P (removeAll x ys) = removeAll x (takeWhile P ys)"
  by (induction ys) auto

lemma takeWhile_firsts:
  "takeWhile (\<lambda>k. k \<noteq> f) (firsts xs) = firsts (takeWhile (\<lambda>k. k \<noteq> f) xs)"
  by (induction xs) (auto simp: takeWhile_removeAll)

lemma most_common1_Counter:
  assumes "xs \<noteq> []"
  shows "\<exists>m. most_common1 (Counter xs) = [(m, count_list xs m)] \<and> m \<in> set xs \<and>
           (\<forall>l. count_list xs l \<le> count_list xs m) \<and>
           (\<forall>l \<in> set (takeWhile (\<lambda>c. c \<noteq> m) xs). count_list xs l < count_list xs m)"
proof -
  let ?g = "\<lambda>k. (k, count_list xs k)"
  from assms have "firsts xs \<noteq> []"
    using set_firsts [of xs] by auto
  then obtain k0 ks where ks: "firsts xs = k0 # ks"
    by (cases "firsts xs") auto
  let ?r = "max_first (?g k0) (map ?g ks)"
  have C: "Counter xs = ?g k0 # map ?g ks"
    by (simp add: Counter_eq ks)
  have mc: "most_common1 (Counter xs) = [?r]"
    by (simp add: most_common1_def C)
  have "?r \<in> set (?g k0 # map ?g ks)" by (rule max_first_mem)
  then have "?r \<in> ?g ` set (firsts xs)" by (simp add: ks)
  then obtain m where m: "?r = ?g m" "m \<in> set xs"
    by (auto simp: set_firsts)
  have ge: "count_list xs l \<le> count_list xs m" for l
  proof (cases "l \<in> set xs")
    case True
    then have "?g l \<in> set (?g k0 # map ?g ks)"
      using set_firsts [of xs] ks by auto
    then have "snd (?g l) \<le> snd ?r" by (rule max_first_ge)
    then show ?thesis by (simp add: m)
  next
    case False
    then show ?thesis by (simp add: count_list_0_iff)
  qed
  have earlier: "count_list xs l < count_list xs m"
    if l: "l \<in> set (takeWhile (\<lambda>c. c \<noteq> m) xs)" for l
  proof -
    have "l \<in> set (firsts (takeWhile (\<lambda>c. c \<noteq> m) xs))"
      using l by (simp add: set_firsts)
    then have "l \<in> set (takeWhile (\<lambda>c. c \<noteq> m) (firsts xs))"
      by (simp add: takeWhile_firsts)
    then have "?g l \<in> set (map ?g (takeWhile (\<lambda>c. c \<noteq> m) (firsts xs)))"
      by simp
    also have "map ?g (takeWhile (\<lambda>c. c \<noteq> m) (firsts xs)) =
               takeWhile (\<lambda>kv. kv \<noteq> ?g m) (map ?g (firsts xs))"
      by (simp add: takeWhile_map comp_def)
    finally have "?g l \<in> set (takeWhile (\<lambda>kv. kv \<noteq> ?r) (?g k0 # map ?g ks))"
      by (simp add: m ks)
    then have "snd (?g l) < snd ?r" by (rule max_first_earlier)
    then show ?thesis by (simp add: m)
  qed
  show ?thesis using mc m ge earlier by auto
qed

section \<open>The aggregate of \<open>predict_patient\<close>\<close>

lemma aggregate_Inr:
  assumes "preds \<noteq> []"
  shows "\<exists>r. aggregate names preds = Inr r"
proof -
  from assms have ne: "map predicted_class preds \<noteq> []" by simp
  from most_common1_Counter [OF ne] obtain m
    where "most_common1 (Counter (map predicted_class preds)) =
             [(m, count_list (map predicted_class preds) m)]"
    by blast
  then show ?thesis using ne by (simp add: aggregate_def Let_def)
qed

lemma aggregate_fields:
  assumes "aggregate names preds = Inr r"
  shows "preds \<noteq> []"
    and "most_common1 (Counter (map predicted_class preds)) =
           [(patient_diagnosis r, count_list (map predicted_class preds) (patient_diagnosis r))]"
    and "individual_predictions r = preds"
    and "consensus_strength r =
           py_round (consensus_strength_unrounded
             (count_list (map predicted_class preds) (patient_diagnosis r)) (length preds)) 1"
    and "patient_confidence r = py_round (avg_confidence preds (patient_diagnosis r)) 2"
    and "vote_distribution r =
           vote_distribution_of names (Counter (map predicted_class preds)) (length preds)"
    and "total_images_processed r = length preds"
proof -
  from assms show ne: "preds \<noteq> []"
    by (auto simp: aggregate_def Let_def split: if_splits)
  then have ne': "map predicted_class preds \<noteq> []" by simp
  from most_common1_Counter [OF ne'] obtain m
    where m: "most_common1 (Counter (map predicted_class preds)) =
                [(m, count_list (map predicted_class preds) m)]"
    by blast
  from assms m ne have r: "r = \<lparr>patient_diagnosis = m,
        diagnosis_label = dict_get_default CLASS_LABELS m m,
        patient_confidence = py_round (avg_confidence preds m) 2,
        vote_distribution =
          vote_distribution_of names (Counter (map predicted_class preds)) (length preds),
        individual_predictions = preds,
        consensus_strength = py_round (consensus_strength_unrounded
             (counter_get (Counter (map predicted_class preds)) m) (length preds)) 1,
        total_images_processed = length preds\<rparr>"
    by (simp add: aggregate_def Let_def)
  show "most_common1 (Counter (map predicted_class preds)) =
           [(patient_diagnosis r, count_list (map predicted_class preds) (patient_diagnosis r))]"
    using m r by simp
  show "individual_predictions r = preds" using r by simp
  show "consensus_strength r =
           py_round (consensus_strength_unrounded
             (count_list (map predicted_class preds) (patient_diagnosis r)) (length preds)) 1"
    using r by (simp add: counter_get_Counter)
  show "patient_confidence r = py_round (avg_confidence preds (patient_diagnosis r)) 2"
    using r by simp
  show "vote_distribution r =
           vote_distribution_of names (Counter (map predicted_class preds)) (length preds)"
    using r by simp
  show "total_images_processed r = length preds" using r by simp
qed

lemma demo_collect:
  "collect_predictions (new_predictor True) demo_classifier 1
     [''slices/slice_1.png'', ''slices/slice_2.png'', ''slices/slice_3.png''] 0 =
   [(RealModel, \<lparr>predicted_class = ''AD'', confidence = 90,
        probabilities = [(''AD'', 90), (''CN'', 6), (''MCI'', 4)],
        image_index = 1, image_path = ''slice_1.png''\<rparr>),
    (RealModel, \<lparr>predicted_class = ''AD'', confidence = 70,
        probabilities = [(''AD'', 70), (''CN'', 20), (''MCI'', 10)],
        image_index = 2, image_path = ''slice_2.png''\<rparr>),
    (RealModel, \<lparr>predicted_class = ''CN'', confidence = 95,
        probabilities = [(''AD'', 3), (''CN'', 95), (''MCI'', 2)],
        image_index = 3, image_path = ''slice_3.png''\<rparr>)]"
  by (simp add: predictor_defs round_defs upt_rec)

section \<open>Majority vote\<close>

lemma collect_nonempty_paths: "collect_predictions p env i paths k \<noteq> [] \<Longrightarrow> paths \<noteq> []"
  by (cases paths) auto

text \<open>
  Claim C1. Whenever the loop of \<open>predict_patient\<close> collects at least one per-slice
  prediction, the function returns a result. Its final diagnosis is one of the predicted
  labels and no label has more votes. Every label met in the sequence of predictions
  before the first occurrence of the final diagnosis has strictly fewer votes, so among
  labels with equal counts the one encountered first wins. The consensus strength computed
  in line 189 is the votes for the final label divided by the number of predictions, times
  100; the result reports it rounded to one decimal place.
\<close>

theorem predict_patient_majority_vote:
  assumes "collect_predictions p env 1 image_paths k \<noteq> []"
  shows "\<exists>r. predict_patient p env image_paths k = Inr r \<and>
           (let cls = map predicted_class (individual_predictions r);
                f = patient_diagnosis r
            in individual_predictions r = map snd (collect_predictions p env 1 image_paths k) \<and>
               f \<in> set cls \<and>
               (\<forall>l. count_list cls l \<le> count_list cls f) \<and>
               (\<forall>l \<in> set (takeWhile (\<lambda>c. c \<noteq> f) cls). count_list cls l < count_list cls f) \<and>
               consensus_strength_unrounded (count_list cls f) (length cls) =
                 real (count_list cls f) / real (length cls) * 100 \<and>
               consensus_strength r =
                 py_round (real (count_list cls f) / real (length cls) * 100) 1)"
proof -
  let ?preds = "map snd (collect_predictions p env 1 image_paths k)"
  let ?cls = "map predicted_class ?preds"
  from assms have paths: "image_paths \<noteq> []" by (rule collect_nonempty_paths)
  from assms have ne: "?preds \<noteq> []" by simp
  then obtain r where agg: "aggregate (class_names p) ?preds = Inr r"
    using aggregate_Inr by blast
  have run: "predict_patient p env image_paths k = Inr r"
    using paths agg by (simp add: predict_patient_def)
  have ip: "individual_predictions r = ?preds"
    using aggregate_fields(3) [OF agg] .
  have mc: "most_common1 (Counter ?cls) = [(patient_diagnosis r, count_list ?cls (patient_diagnosis r))]"
    using aggregate_fields(2) [OF agg] .
  from ne have "?cls \<noteq> []" by simp
  from most_common1_Counter [OF this] mc
  have win: "patient_diagnosis r \<in> set ?cls"
    "\<forall>l. count_list ?cls l \<le> count_list ?cls (patient_diagnosis r)"
    "\<forall>l \<in> set (takeWhile (\<lambda>c. c \<noteq> patient_diagnosis r) ?cls).
        count_list ?cls l < count_list ?cls (patient_diagnosis r)"
    by auto
  have cls_eq: "?cls = map predicted_class (individual_predictions r)"
    unfolding ip ..
  have cs: "consensus_strength r =
      py_round (real (count_list ?cls (patient_diagnosis r)) / real (length ?cls) * 100) 1"
    using aggregate_fields(4) [OF agg] by (simp add: consensus_strength_unrounded_def)
  have unr: "consensus_strength_unrounded (count_list ?cls (patient_diagnosis r)) (length ?cls) =
      real (count_list ?cls (patient_diagnosis r)) / real (length ?cls) * 100"
    by (simp add: consensus_strength_unrounded_def)
  note facts = win cs unr
  show ?thesis
    unfolding Let_def
    using run ip facts [unfolded cls_eq] by blast
qed

lemma demo_collect_tie:
  "map (predicted_class \<circ> snd) (collect_predictions (new_predictor True) demo_classifier 1
     [''slices/slice_3.png'', ''slices/slice_1.png'', ''slices/slice_2.png''] 0) =
   [''CN'', ''AD'', ''AD'']"
  by (simp add: predictor_defs round_defs upt_rec)

theorem predict_patient_majority_vote_witness:
  "collect_predictions (new_predictor True) demo_classifier 1
     [''slices/slice_3.png'', ''slices/slice_1.png'', ''slices/slice_2.png''] 0 \<noteq> [] \<and>
   (\<exists>r. predict_patient (new_predictor True) demo_classifier
           [''slices/slice_3.png'', ''slices/slice_1.png'', ''slices/slice_2.png''] 0 = Inr r \<and>
        patient_diagnosis r = ''AD'' \<and>
        count_list (map predicted_class (individual_predictions r)) ''CN'' = 1 \<and>
        count_list (map predicted_class (individual_predictions r)) ''AD'' = 2 \<and>
        consensus_strength r = 667 / 10)"
proof -
  let ?paths = "[''slices/slice_3.png'', ''slices/slice_1.png'', ''slices/slice_2.png'']"
  let ?c = "collect_predictions (new_predictor True) demo_classifier 1 ?paths 0"
  have cls: "map predicted_class (map snd ?c) = [''CN'', ''AD'', ''AD'']"
    using demo_collect_tie by simp
  then have ne: "?c \<noteq> []" by auto
  from predict_patient_majority_vote [OF ne, unfolded Let_def] obtain r where
    run: "predict_patient (new_predictor True) demo_classifier ?paths 0 = Inr r"
    and ip: "individual_predictions r = map snd ?c"
    and mem: "patient_diagnosis r \<in> set (map predicted_class (individual_predictions r))"
    and mx: "\<forall>l. count_list (map predicted_class (individual_predictions r)) l
               \<le> count_list (map predicted_class (individual_predictions r)) (patient_diagnosis r)"
    and cs: "consensus_strength r =
        py_round (real (count_list (map predicted_class (individual_predictions r)) (patient_diagnosis r))
          / real (length (map predicted_class (individual_predictions r))) * 100) 1"
    by blast
  have cls': "map predicted_class (individual_predictions r) = [''CN'', ''AD'', ''AD'']"
    using ip cls by simp
  from mem cls' have "patient_diagnosis r = ''CN'' \<or> patient_diagnosis r = ''AD''" by auto
  moreover have "patient_diagnosis r \<noteq> ''CN''"
  proof
    assume "patient_diagnosis r = ''CN''"
    with mx [rule_format, of "''AD''"] cls' show False by simp
  qed
  ultimately have f: "patient_diagnosis r = ''AD''" by simp
  have "consensus_strength r = 667 / 10"
    using cs cls' f by (simp add: round_defs)
  with run f cls' ne show ?thesis by simp
qed

section \<open>Mean confidence\<close>

lemma predict_patient_aggregate:
  assumes "predict_patient p env image_paths k = Inr r"
  shows "aggregate (class_names p) (map snd (collect_predictions p env 1 image_paths k)) = Inr r"
  using assms by (simp add: predict_patient_def split: if_splits)

lemma final_has_votes:
  assumes "aggregate names preds = Inr r"
  shows "filter (\<lambda>q. predicted_class q = patient_diagnosis r) preds \<noteq> []"
proof -
  from aggregate_fields(1) [OF assms] have "map predicted_class preds \<noteq> []" by simp
  from most_common1_Counter [OF this] aggregate_fields(2) [OF assms]
  have "patient_diagnosis r \<in> set (map predicted_class preds)" by auto
  then show ?thesis by (auto simp: filter_empty_conv)
qed

lemma example_aggregate:
  "aggregate [''AD'', ''CN'', ''MCI''] example_predictions =
   Inr \<lparr>patient_diagnosis = ''AD'', diagnosis_label = ''Alzheimer's Disease'',
        patient_confidence = 4 / 5,
        vote_distribution = [(''AD'', \<lparr>count = 2, percentage = 667 / 10\<rparr>),
                             (''CN'', \<lparr>count = 1, percentage = 333 / 10\<rparr>),
                             (''MCI'', \<lparr>count = 0, percentage = 0\<rparr>)],
        individual_predictions = example_predictions,
        consensus_strength = 667 / 10,
        total_images_processed = 3\<rparr>"
  by (simp add: aggregate_defs example_predictions_def round_defs)

text \<open>
  Claim C2. The mean confidence computed by \<open>predict_patient\<close> (lines 192 to 197) is the
  arithmetic mean of the \<open>confidence\<close> fields of exactly those per-slice predictions whose
  label is the final diagnosis; there is at least one of them. The result reports this
  mean rounded to two decimal places. On the predictions \<open>AD(0.9)\<close>, \<open>AD(0.7)\<close>,
  \<open>CN(0.95)\<close> the diagnosis is \<open>AD\<close>, the reported consensus is 66.7 and the reported
  mean confidence is 0.8, whereas the mean over all three predictions is 0.85.
\<close>

theorem mean_confidence_over_final_label:
  "(\<forall>p env image_paths k r.
      predict_patient p env image_paths k = Inr r \<longrightarrow>
      (let agreeing = filter (\<lambda>q. predicted_class q = patient_diagnosis r)
                        (individual_predictions r)
       in agreeing \<noteq> [] \<and>
          avg_confidence (individual_predictions r) (patient_diagnosis r) =
            sum_list (map confidence agreeing) / real (length agreeing) \<and>
          patient_confidence r =
            py_round (sum_list (map confidence agreeing) / real (length agreeing)) 2)) \<and>
   map_sum id patient_diagnosis (aggregate [''AD'', ''CN'', ''MCI''] example_predictions) =
     Inr ''AD'' \<and>
   map_sum id consensus_strength (aggregate [''AD'', ''CN'', ''MCI''] example_predictions) =
     Inr (667 / 10) \<and>
   map_sum id patient_confidence (aggregate [''AD'', ''CN'', ''MCI''] example_predictions) =
     Inr (4 / 5) \<and>
   np_mean (map confidence example_predictions) = 85 / 100"
proof -
  have general: "(let agreeing = filter (\<lambda>q. predicted_class q = patient_diagnosis r)
                        (individual_predictions r)
       in agreeing \<noteq> [] \<and>
          avg_confidence (individual_predictions r) (patient_diagnosis r) =
            sum_list (map confidence agreeing) / real (length agreeing) \<and>
          patient_confidence r =
            py_round (sum_list (map confidence agreeing) / real (length agreeing)) 2)"
    if run: "predict_patient p env image_paths k = Inr r" for p env image_paths k r
  proof -
    let ?preds = "map snd (collect_predictions p env 1 image_paths k)"
    have agg: "aggregate (class_names p) ?preds = Inr r"
      using run by (rule predict_patient_aggregate)
    have ip: "individual_predictions r = ?preds"
      using aggregate_fields(3) [OF agg] .
    have ne: "filter (\<lambda>q. predicted_class q = patient_diagnosis r) ?preds \<noteq> []"
      using agg by (rule final_has_votes)
    have avg: "avg_confidence ?preds (patient_diagnosis r) =
        sum_list (map confidence (filter (\<lambda>q. predicted_class q = patient_diagnosis r) ?preds))
        / real (length (filter (\<lambda>q. predicted_class q = patient_diagnosis r) ?preds))"
      using ne by (simp add: avg_confidence_def confidences_for_final_def np_mean_def Let_def)
    have pc: "patient_confidence r = py_round (avg_confidence ?preds (patient_diagnosis r)) 2"
      using aggregate_fields(5) [OF agg] .
    show ?thesis
      unfolding Let_def ip using ne avg pc by simp
  qed
  have ex: "np_mean (map confidence example_predictions) = 85 / 100"
    by (simp add: np_mean_def example_predictions_def)
  show ?thesis
    using general ex by (simp add: example_aggregate)
qed

lemma demo_run:
  "predict_patient (new_predictor True) demo_classifier
     [''slices/slice_1.png'', ''slices/slice_2.png'', ''slices/slice_3.png''] 0 =
   Inr \<lparr>patient_diagnosis = ''AD'', diagnosis_label = ''Alzheimer's Disease'',
        patient_confidence = 80,
        vote_distribution = [(''AD'', \<lparr>count = 2, percentage = 667 / 10\<rparr>),
                             (''CN'', \<lparr>count = 1, percentage = 333 / 10\<rparr>),
                             (''MCI'', \<lparr>count = 0, percentage = 0\<rparr>)],
        individual_predictions =
          [\<lparr>predicted_class = ''AD'', confidence = 90,
            probabilities = [(''AD'', 90), (''CN'', 6), (''MCI'', 4)],
            image_index = 1, image_path = ''slice_1.png''\<rparr>,
           \<lparr>predicted_class = ''AD'', confidence = 70,
            probabilities = [(''AD'', 70), (''CN'', 20), (''MCI'', 10)],
            image_index = 2, image_path = ''slice_2.png''\<rparr>,
           \<lparr>predicted_class = ''CN'', confidence = 95,
            probabilities = [(''AD'', 3), (''CN'', 95), (''MCI'', 2)],
            image_index = 3, image_path = ''slice_3.png''\<rparr>],
        consensus_strength = 667 / 10,
        total_images_processed = 3\<rparr>"
  unfolding predict_patient_def demo_collect
  by (simp add: aggregate_defs round_defs new_predictor_def)

theorem mean_confidence_over_final_label_witness:
  "patient_confidence
     (projr (predict_patient (new_predictor True) demo_classifier
        [''slices/slice_1.png'', ''slices/slice_2.png'', ''slices/slice_3.png''] 0)) =
   py_round ((90 + 70) / 2) 2"
proof -
  let ?run = "predict_patient (new_predictor True) demo_classifier
        [''slices/slice_1.png'', ''slices/slice_2.png'', ''slices/slice_3.png''] 0"
  obtain r where r: "?run = Inr r" using demo_run by blast
  from mean_confidence_over_final_label [THEN conjunct1, rule_format, OF r, unfolded Let_def]
  have pc: "patient_confidence r =
      py_round (sum_list (map confidence (filter (\<lambda>q. predicted_class q = patient_diagnosis r)
                        (individual_predictions r)))
        / real (length (filter (\<lambda>q. predicted_class q = patient_diagnosis r)
                        (individual_predictions r)))) 2"
    by blast
  have r_eq: "r = projr ?run" using r by simp
  have d: "patient_diagnosis r = ''AD''"
    unfolding r_eq demo_run by simp
  have ip: "individual_predictions r =
          [\<lparr>predicted_class = ''AD'', confidence = 90,
            probabilities = [(''AD'', 90), (''CN'', 6), (''MCI'', 4)],
            image_index = 1, image_path = ''slice_1.png''\<rparr>,
           \<lparr>predicted_class = ''AD'', confidence = 70,
            probabilities = [(''AD'', 70), (''CN'', 20), (''MCI'', 10)],
            image_index = 2, image_path = ''slice_2.png''\<rparr>,
           \<lparr>predicted_class = ''CN'', confidence = 95,
            probabilities = [(''AD'', 3), (''CN'', 95), (''MCI'', 2)],
            image_index = 3, image_path = ''slice_3.png''\<rparr>]"
    unfolding r_eq demo_run by simp
  have "patient_confidence r = py_round ((90 + 70) / 2) 2"
    unfolding pc d ip by simp
  then show ?thesis using r by simp
qed


section \<open>Vote distribution\<close>

lemma round_half_even_error: "\<bar>real_of_int (round_half_even x) - x\<bar> \<le> 1 / 2"
proof -
  have "real_of_int \<lfloor>x\<rfloor> \<le> x" "x < real_of_int \<lfloor>x\<rfloor> + 1" by linarith+
  then show ?thesis
    by (auto simp: round_half_even_def Let_def)
qed

lemma round_half_even_zero: "round_half_even 0 = 0"
  by (simp add: round_half_even_def)

lemma py_round_zero: "py_round 0 n = 0"
  by (simp add: py_round_def round_half_even_zero)

lemma mock_prediction_class:
  "mock_prediction p env k = Inr pr \<Longrightarrow> predicted_class pr \<in> set (class_names p)"
  by (auto simp: mock_prediction_def Let_def split: if_splits sum.splits)

lemma real_prediction_class:
  "real_prediction p out = Inr pr \<Longrightarrow> predicted_class pr \<in> set (class_names p)"
  by (auto simp: real_prediction_def Let_def split: if_splits)

lemma predict_single_image_class:
  "predict_single_image p env path k = (Inr (og, pr), k') \<Longrightarrow>
   predicted_class pr \<in> set (class_names p)"
  by (auto simp: predict_single_image_def Let_def
      dest: mock_prediction_class real_prediction_class split: if_splits sum.splits)

lemma collect_predictions_class:
  "(og, ip) \<in> set (collect_predictions p env i paths k) \<Longrightarrow>
   predicted_class ip \<in> set (class_names p)"
proof (induction paths arbitrary: i k)
  case Nil
  then show ?case by simp
next
  case (Cons path rest)
  obtain res k' where ps: "predict_single_image p env path k = (res, k')"
    by (cases "predict_single_image p env path k")
  show ?case
  proof (cases res)
    case (Inl e)
    with Cons ps show ?thesis by simp
  next
    case (Inr tagged)
    obtain og' pr where t: "tagged = (og', pr)" by (cases tagged)
    have "predicted_class pr \<in> set (class_names p)"
      using ps Inr t by (auto dest: predict_single_image_class)
    with Cons ps Inr t show ?thesis by auto
  qed
qed

lemma count_three:
  "set xs \<subseteq> {a, b, c} \<Longrightarrow> a \<noteq> b \<Longrightarrow> a \<noteq> c \<Longrightarrow> b \<noteq> c \<Longrightarrow>
   count_list xs a + count_list xs b + count_list xs c = length xs"
  by (induction xs) auto

lemma three_roundings:
  fixes a b c :: real and ra rb rc :: int
  assumes "\<bar>real_of_int ra - a\<bar> \<le> 1 / 2" "\<bar>real_of_int rb - b\<bar> \<le> 1 / 2"
    "\<bar>real_of_int rc - c\<bar> \<le> 1 / 2" "a + b + c = 1000"
  shows "\<bar>ra + rb + rc - 1000\<bar> \<le> 1"
proof -
  have "real_of_int (ra + rb + rc - 1000) =
        (real_of_int ra - a) + (real_of_int rb - b) + (real_of_int rc - c)"
    using assms(4) by simp
  then have "\<bar>real_of_int (ra + rb + rc - 1000)\<bar> \<le> 3 / 2"
    using assms(1-3) by linarith
  then have "\<bar>real_of_int (ra + rb + rc - 1000)\<bar> < 2" by linarith
  then have "\<bar>ra + rb + rc - 1000\<bar> < 2"
    by (metis of_int_abs of_int_less_numeral_iff)
  then show ?thesis by linarith
qed


lemma vote_distribution_of_three:
  "vote_distribution_of [a, b, c] vc n =
     [(a, \<lparr>count = counter_get vc a, percentage = py_round (real (counter_get vc a) / real n * 100) 1\<rparr>),
      (b, \<lparr>count = counter_get vc b, percentage = py_round (real (counter_get vc b) / real n * 100) 1\<rparr>),
      (c, \<lparr>count = counter_get vc c, percentage = py_round (real (counter_get vc c) / real n * 100) 1\<rparr>)]"
  by (simp add: vote_distribution_of_def)

lemma percentages_near_100:
  fixes x y z :: nat
  assumes "x + y + z = n" "0 < n"
  shows "\<bar>py_round (real x / real n * 100) 1 + py_round (real y / real n * 100) 1
           + py_round (real z / real n * 100) 1 - 100\<bar> \<le> 1 / 10"
proof -
  let ?a = "real x / real n * 100 * 10" and ?b = "real y / real n * 100 * 10"
    and ?c = "real z / real n * 100 * 10"
  have "real x + real y + real z = real n" using assms(1) by (metis of_nat_add)
  then have one: "(real x + real y + real z) / real n = 1" using assms(2) by simp
  have "?a + ?b + ?c = (real x + real y + real z) / real n * 1000"
    by (simp add: add_divide_distrib algebra_simps)
  then have sum: "?a + ?b + ?c = 1000"
    unfolding one by simp
  have "\<bar>round_half_even ?a + round_half_even ?b + round_half_even ?c - 1000\<bar> \<le> 1"
    by (rule three_roundings [OF round_half_even_error round_half_even_error
          round_half_even_error sum])
  then have "\<bar>real_of_int (round_half_even ?a + round_half_even ?b + round_half_even ?c - 1000)\<bar> \<le> 1"
    by linarith
  then show ?thesis
    by (simp add: py_round_def abs_le_iff field_simps)
qed


text \<open>
  Claim C8, as the code has it. For a predictor with the vocabulary \<open>AD\<close>, \<open>CN\<close>, \<open>MCI\<close>
  the vote distribution of every result has exactly one entry per class of the vocabulary,
  in its order. The entry of a class holds the number of per-slice predictions with that
  label and that number as a percentage of all predictions, rounded to one decimal place;
  a class without votes has count 0 and percentage 0. The counts add up to the number of
  predictions, and the rounded percentages add up to 100 within one tenth.
\<close>

theorem vote_distribution_over_vocabulary:
  assumes run: "predict_patient p env image_paths k = Inr r"
    and names: "class_names p = [''AD'', ''CN'', ''MCI'']"
  shows "map fst (vote_distribution r) = class_names p \<and>
         (\<forall>cv \<in> set (vote_distribution r).
            count (snd cv) =
              count_list (map predicted_class (individual_predictions r)) (fst cv) \<and>
            percentage (snd cv) =
              py_round (real (count (snd cv)) / real (total_images_processed r) * 100) 1 \<and>
            (count (snd cv) = 0 \<longrightarrow> percentage (snd cv) = 0)) \<and>
         sum_list (map (\<lambda>cv. count (snd cv)) (vote_distribution r)) = total_images_processed r \<and>
         \<bar>percentage_total r - 100\<bar> \<le> 1 / 10"
proof -
  let ?preds = "map snd (collect_predictions p env 1 image_paths k)"
  let ?cls = "map predicted_class ?preds"
  let ?n = "length ?preds"
  have agg: "aggregate (class_names p) ?preds = Inr r"
    using run by (rule predict_patient_aggregate)
  have ip: "individual_predictions r = ?preds" using aggregate_fields(3) [OF agg] .
  have tot: "total_images_processed r = ?n" using aggregate_fields(7) [OF agg] .
  have ne: "?preds \<noteq> []" using aggregate_fields(1) [OF agg] .
  then have n_pos: "0 < ?n" by simp
  have vd: "vote_distribution r =
      [(''AD'', \<lparr>count = count_list ?cls ''AD'',
                 percentage = py_round (real (count_list ?cls ''AD'') / real ?n * 100) 1\<rparr>),
       (''CN'', \<lparr>count = count_list ?cls ''CN'',
                 percentage = py_round (real (count_list ?cls ''CN'') / real ?n * 100) 1\<rparr>),
       (''MCI'', \<lparr>count = count_list ?cls ''MCI'',
                 percentage = py_round (real (count_list ?cls ''MCI'') / real ?n * 100) 1\<rparr>)]"
    using aggregate_fields(6) [OF agg]
    by (simp only: names vote_distribution_of_three counter_get_Counter)
  have "set ?cls \<subseteq> set (class_names p)"
    using collect_predictions_class [of _ _ p env 1 image_paths k] by auto
  then have sub: "set ?cls \<subseteq> {''AD'', ''CN'', ''MCI''}" by (simp add: names)
  have counts: "count_list ?cls ''AD'' + count_list ?cls ''CN'' + count_list ?cls ''MCI'' = ?n"
    using count_three [OF sub] by simp
  have near: "\<bar>py_round (real (count_list ?cls ''AD'') / real ?n * 100) 1
           + py_round (real (count_list ?cls ''CN'') / real ?n * 100) 1
           + py_round (real (count_list ?cls ''MCI'') / real ?n * 100) 1 - 100\<bar> \<le> 1 / 10"
    by (rule percentages_near_100 [OF counts n_pos])
  have c1: "map fst (vote_distribution r) = class_names p"
    by (simp add: vd names)
  have c2: "\<forall>cv \<in> set (vote_distribution r).
            count (snd cv) =
              count_list (map predicted_class (individual_predictions r)) (fst cv) \<and>
            percentage (snd cv) =
              py_round (real (count (snd cv)) / real (total_images_processed r) * 100) 1 \<and>
            (count (snd cv) = 0 \<longrightarrow> percentage (snd cv) = 0)"
    unfolding ip tot vd by (simp add: py_round_zero)
  have c3: "sum_list (map (\<lambda>cv. count (snd cv)) (vote_distribution r)) = total_images_processed r"
    unfolding tot vd using counts by simp
  have pt: "percentage_total r =
        py_round (real (count_list ?cls ''AD'') / real ?n * 100) 1
           + py_round (real (count_list ?cls ''CN'') / real ?n * 100) 1
           + py_round (real (count_list ?cls ''MCI'') / real ?n * 100) 1"
    unfolding percentage_total_def vd by simp
  have c4: "\<bar>percentage_total r - 100\<bar> \<le> 1 / 10"
    unfolding pt by (rule near)
  from c1 c2 c3 c4 show ?thesis by blast
qed

theorem vote_distribution_over_vocabulary_witness:
  "map fst (vote_distribution
     (projr (predict_patient (new_predictor True) demo_classifier
        [''slices/slice_1.png'', ''slices/slice_2.png'', ''slices/slice_3.png''] 0))) =
   [''AD'', ''CN'', ''MCI''] \<and>
   \<bar>percentage_total
      (projr (predict_patient (new_predictor True) demo_classifier
        [''slices/slice_1.png'', ''slices/slice_2.png'', ''slices/slice_3.png''] 0)) - 100\<bar>
     \<le> 1 / 10"
proof -
  let ?run = "predict_patient (new_predictor True) demo_classifier
        [''slices/slice_1.png'', ''slices/slice_2.png'', ''slices/slice_3.png''] 0"
  obtain r where r: "?run = Inr r" using demo_run by blast
  have names: "class_names (new_predictor True) = [''AD'', ''CN'', ''MCI'']"
    by (simp add: new_predictor_def)
  from vote_distribution_over_vocabulary [OF r names]
  have "map fst (vote_distribution r) = class_names (new_predictor True)"
    and "\<bar>percentage_total r - 100\<bar> \<le> 1 / 10"
    by blast+
  then show ?thesis using r names by simp
qed

lemma demo_collect_three_way:
  "map snd (collect_predictions (new_predictor True) demo_classifier 1
     [''slices/slice_1.png'', ''slices/slice_3.png'', ''slices/slice_4.png''] 0) =
   [\<lparr>predicted_class = ''AD'', confidence = 90,
        probabilities = [(''AD'', 90), (''CN'', 6), (''MCI'', 4)],
        image_index = 1, image_path = ''slice_1.png''\<rparr>,
    \<lparr>predicted_class = ''CN'', confidence = 95,
        probabilities = [(''AD'', 3), (''CN'', 95), (''MCI'', 2)],
        image_index = 2, image_path = ''slice_3.png''\<rparr>,
    \<lparr>predicted_class = ''MCI'', confidence = 80,
        probabilities = [(''AD'', 10), (''CN'', 10), (''MCI'', 80)],
        image_index = 3, image_path = ''slice_4.png''\<rparr>]"
  by (simp add: predictor_defs round_defs upt_rec)

text \<open>
  Claim C8 as stated fails: with one vote for each of the three classes every percentage
  is 33.3 and their sum is 99.9.
\<close>

theorem vote_percentages_sum_counterexample:
  "map_sum id percentage_total
     (predict_patient (new_predictor True) demo_classifier
        [''slices/slice_1.png'', ''slices/slice_3.png'', ''slices/slice_4.png''] 0) =
   Inr (999 / 10)"
  unfolding predict_patient_def demo_collect_three_way
  by (simp add: aggregate_defs round_defs new_predictor_def percentage_total_def)

section \<open>Comparison of a volume with its normative range\<close>

lemmas compare_defs = compare_to_norm_def status_and_deviation_def py_div_def

text \<open>
  Claim C6, as the code has it. For a range with a positive minimum that is not above
  its maximum, the comparison of a value never raises. A value strictly below the
  minimum is \<open>Below Normal\<close> with deviation (min - value) / min x 100; a value strictly
  above the maximum is \<open>Above Normal\<close> with deviation (value - max) / max x 100; every
  other value, the minimum and the maximum included, is \<open>Normal\<close> and carries the
  absolute value of its deviation from the midpoint of the range as a percentage of the
  midpoint. The reported deviation is rounded to one decimal place.
\<close>

theorem compare_to_norm_status_and_deviation:
  assumes "0 < norm_min nr" and "norm_min nr \<le> norm_max nr"
  shows "\<exists>c. compare_to_norm v nr = Inr c \<and>
           (v < norm_min nr \<longrightarrow>
              status c = ''Below Normal'' \<and>
              deviation_percent c = py_round ((norm_min nr - v) / norm_min nr * 100) 1) \<and>
           (norm_max nr < v \<longrightarrow>
              status c = ''Above Normal'' \<and>
              deviation_percent c = py_round ((v - norm_max nr) / norm_max nr * 100) 1) \<and>
           (norm_min nr \<le> v \<and> v \<le> norm_max nr \<longrightarrow>
              status c = ''Normal'' \<and>
              deviation_percent c =
                py_round \<bar>(v - (norm_min nr + norm_max nr) / 2)
                           / ((norm_min nr + norm_max nr) / 2) * 100\<bar> 1)"
proof -
  from assms have mx: "0 < norm_max nr" by linarith
  from assms have mid: "(norm_min nr + norm_max nr) / 2 \<noteq> 0" by simp
  consider "v < norm_min nr" | "norm_max nr < v" | "norm_min nr \<le> v \<and> v \<le> norm_max nr"
    by linarith
  then show ?thesis
  proof cases
    case 1
    then have "0 \<le> (norm_min nr - v) / norm_min nr * 100" using assms by simp
    then have "\<bar>(norm_min nr - v) / norm_min nr * 100\<bar> = (norm_min nr - v) / norm_min nr * 100"
      by (rule abs_of_nonneg)
    with 1 assms show ?thesis by (simp add: compare_defs)
  next
    case 2
    then have "0 \<le> (v - norm_max nr) / norm_max nr * 100" using mx by simp
    then have "\<bar>(v - norm_max nr) / norm_max nr * 100\<bar> = (v - norm_max nr) / norm_max nr * 100"
      by (rule abs_of_nonneg)
    with 2 assms mx show ?thesis by (simp add: compare_defs)
  next
    case 3
    with mid show ?thesis by (simp add: compare_defs Let_def)
  qed
qed

theorem compare_to_norm_status_and_deviation_witness:
  "map_sum id status (compare_to_norm 1099 total_brain_range) = Inr ''Below Normal'' \<and>
   map_sum id deviation_percent (compare_to_norm 1099 total_brain_range) = Inr (1 / 10) \<and>
   map_sum id status (compare_to_norm 1100 total_brain_range) = Inr ''Normal'' \<and>
   map_sum id status (compare_to_norm 1400 total_brain_range) = Inr ''Normal'' \<and>
   map_sum id deviation_percent (compare_to_norm 1400 total_brain_range) = Inr 12 \<and>
   map_sum id status (compare_to_norm 1470 total_brain_range) = Inr ''Above Normal'' \<and>
   map_sum id deviation_percent (compare_to_norm 1470 total_brain_range) = Inr 5"
proof -
  have h1: "0 < norm_min total_brain_range"
    and h2: "norm_min total_brain_range \<le> norm_max total_brain_range"
    by (simp_all add: total_brain_range_def)
  note inst = compare_to_norm_status_and_deviation [OF h1 h2]
  from inst [of 1099] have a: "map_sum id status (compare_to_norm 1099 total_brain_range) = Inr ''Below Normal''"
    "map_sum id deviation_percent (compare_to_norm 1099 total_brain_range) = Inr (1 / 10)"
    by (auto simp: total_brain_range_def round_defs)
  from inst [of 1100] have b: "map_sum id status (compare_to_norm 1100 total_brain_range) = Inr ''Normal''"
    by (auto simp: total_brain_range_def)
  from inst [of 1400] have c: "map_sum id status (compare_to_norm 1400 total_brain_range) = Inr ''Normal''"
    "map_sum id deviation_percent (compare_to_norm 1400 total_brain_range) = Inr 12"
    by (auto simp: total_brain_range_def round_defs)
  from inst [of 1470] have d: "map_sum id status (compare_to_norm 1470 total_brain_range) = Inr ''Above Normal''"
    "map_sum id deviation_percent (compare_to_norm 1470 total_brain_range) = Inr 5"
    by (auto simp: total_brain_range_def round_defs)
  from a b c d show ?thesis by simp
qed

text \<open>
  Claim C6 as stated fails: a total brain volume of 1100, the minimum of its range, lies
  12 percent below the midpoint 1250, and the reported deviation is 12, not -12.
\<close>

theorem normal_deviation_unsigned_counterexample:
  "get_volume_comparison (map_of [(''brain_volume'', 1100)]) =
     Inr [(''total_brain'',
           \<lparr>measured = 1100, min_normal = 1100, max_normal = 1400, unit_name = ''cm3'',
            status = ''Normal'', deviation_percent = 12\<rparr>)] \<and>
   ((1100 - (1100 + 1400) / 2) / ((1100 + 1400) / 2) * 100 :: real) = - 12"
  by (simp add: get_volume_comparison_def volume_mappings_def NORMATIVE_VOLUMES_def
      compare_defs round_defs)

section \<open>Tissue volumes from probability maps\<close>

text \<open>
  Claim C7. When the gray-matter map loads, \<open>extract_volumes_from_nifti\<close> returns. The
  gray-matter volume of line 50 is the sum of the voxel values times the product of the
  first three voxel spacings of the header, divided by 1000. When a white-matter path is
  given and its map loads, the white-matter volume of line 65 is the same expression of
  that map; when no path is given, or the map at the path cannot be loaded, it is the
  gray-matter volume times 0.88. The total brain volume of line 77 is the sum of the two.
  The returned dict holds these values rounded to two decimal places. With spacings (1.5, 1.5, 1.5) and a voxel sum of 400000 the
  gray-matter volume is 1350, also after rounding.
\<close>

theorem extract_volumes_formula:
  assumes "load mwp1_path = Inr gm_img"
  shows "\<exists>loc v.
           measure_volumes load mwp1_path mwp2_path = Inr loc \<and>
           extract_volumes_from_nifti load mwp1_path mwp2_path = Inr v \<and>
           gm_volume_cm3 loc =
             sum_list (voxels gm_img) * prod_list (take 3 (zooms gm_img)) / 1000 \<and>
           (\<forall>path wm_img.
              mwp2_path = Some path \<and> path \<noteq> [] \<and> load path = Inr wm_img \<longrightarrow>
              wm_volume_cm3 loc =
                sum_list (voxels wm_img) * prod_list (take 3 (zooms wm_img)) / 1000) \<and>
           (mwp2_path = None \<longrightarrow> wm_volume_cm3 loc = gm_volume_cm3 loc * (88 / 100)) \<and>
           (\<forall>path. mwp2_path = Some path \<and> (path = [] \<or> \<not> returns (load path)) \<longrightarrow>
              wm_volume_cm3 loc = gm_volume_cm3 loc * (88 / 100)) \<and>
           total_brain loc = gm_volume_cm3 loc + wm_volume_cm3 loc \<and>
           gm v = py_round (gm_volume_cm3 loc) 2 \<and>
           wm v = py_round (wm_volume_cm3 loc) 2 \<and>
           brain v = py_round (total_brain loc) 2 \<and>
           (zooms gm_img = [3 / 2, 3 / 2, 3 / 2] \<and> sum_list (voxels gm_img) = 400000 \<longrightarrow>
              gm_volume_cm3 loc = 1350 \<and> gm v = 1350)"
proof -
  obtain loc where loc: "measure_volumes load mwp1_path mwp2_path = Inr loc"
    using assms by (simp add: measure_volumes_def Let_def)
  obtain v where v: "extract_volumes_from_nifti load mwp1_path mwp2_path = Inr v"
    using loc by (simp add: extract_volumes_from_nifti_def Let_def)
  have g: "gm_volume_cm3 loc =
             sum_list (voxels gm_img) * prod_list (take 3 (zooms gm_img)) / 1000"
    using loc assms by (auto simp: measure_volumes_def Let_def)
  have w1: "wm_volume_cm3 loc =
                sum_list (voxels wm_img) * prod_list (take 3 (zooms wm_img)) / 1000"
    if "mwp2_path = Some path" "path \<noteq> []" "load path = Inr wm_img" for path wm_img
    using loc assms that by (auto simp: measure_volumes_def Let_def)
  have w2: "wm_volume_cm3 loc = gm_volume_cm3 loc * (88 / 100)" if "mwp2_path = None"
    using loc assms that by (auto simp: measure_volumes_def Let_def)
  have w3: "wm_volume_cm3 loc = gm_volume_cm3 loc * (88 / 100)"
    if "mwp2_path = Some path" "path = [] \<or> \<not> returns (load path)" for path
    using loc assms that
    by (auto simp: measure_volumes_def Let_def returns_def split: sum.splits)
  have t: "total_brain loc = gm_volume_cm3 loc + wm_volume_cm3 loc"
    using loc assms by (auto simp: measure_volumes_def Let_def)
  have r: "gm v = py_round (gm_volume_cm3 loc) 2" "wm v = py_round (wm_volume_cm3 loc) 2"
    "brain v = py_round (total_brain loc) 2"
    using v loc by (auto simp: extract_volumes_from_nifti_def Let_def)
  have e: "gm_volume_cm3 loc = 1350 \<and> gm v = 1350"
    if "zooms gm_img = [3 / 2, 3 / 2, 3 / 2]" "sum_list (voxels gm_img) = 400000"
  proof -
    have "gm_volume_cm3 loc = 1350" using g that by simp
    moreover have "py_round 1350 2 = 1350" by (simp add: round_defs)
    ultimately show ?thesis using r(1) by simp
  qed
  from loc v g w1 w2 w3 t r e show ?thesis by blast
qed

theorem extract_volumes_formula_witness:
  "map_sum id gm (extract_volumes_from_nifti demo_load ''mri/mwp1scan.nii''
                    (Some ''mri/mwp2scan.nii'')) = Inr 1350 \<and>
   map_sum id wm_volume_cm3 (measure_volumes demo_load ''mri/mwp1scan.nii''
                    (Some ''mri/mwp2scan.nii'')) = Inr (300000 * (27 / 8) / 1000) \<and>
   map_sum id wm_volume_cm3 (measure_volumes demo_load ''mri/mwp1scan.nii'' None) =
     Inr (1350 * (88 / 100))"
proof -
  let ?gm = "\<lparr>voxels = replicate 400000 (1 :: real), zooms = [3 / 2, 3 / 2, 3 / 2]\<rparr>"
  let ?wm = "\<lparr>voxels = replicate 300000 (1 :: real), zooms = [3 / 2, 3 / 2, 3 / 2]\<rparr>"
  have l1: "demo_load ''mri/mwp1scan.nii'' = Inr ?gm" by (simp add: demo_load_def)
  have l2: "demo_load ''mri/mwp2scan.nii'' = Inr ?wm" by (simp add: demo_load_def)
  have z: "zooms ?gm = [3 / 2, 3 / 2, 3 / 2]" by simp
  have sm: "sum_list (voxels ?gm) = 400000" by (simp add: sum_list_replicate)
  from extract_volumes_formula
    [where load = demo_load and mwp1_path = "''mri/mwp1scan.nii''"
       and mwp2_path = "Some ''mri/mwp2scan.nii''", OF l1]
  obtain loc v where
    a: "measure_volumes demo_load ''mri/mwp1scan.nii'' (Some ''mri/mwp2scan.nii'') = Inr loc"
    "extract_volumes_from_nifti demo_load ''mri/mwp1scan.nii'' (Some ''mri/mwp2scan.nii'') = Inr v"
    and w: "\<forall>path wm_img.
              Some ''mri/mwp2scan.nii'' = Some path \<and> path \<noteq> [] \<and> demo_load path = Inr wm_img \<longrightarrow>
              wm_volume_cm3 loc =
                sum_list (voxels wm_img) * prod_list (take 3 (zooms wm_img)) / 1000"
    and e: "zooms ?gm = [3 / 2, 3 / 2, 3 / 2] \<and> sum_list (voxels ?gm) = 400000 \<longrightarrow>
              gm_volume_cm3 loc = 1350 \<and> gm v = 1350"
    by blast
  from e z sm have gv: "gm v = 1350" by blast
  from w l2 have "wm_volume_cm3 loc = sum_list (voxels ?wm) * prod_list (take 3 (zooms ?wm)) / 1000"
    by blast
  then have wv: "wm_volume_cm3 loc = 300000 * (27 / 8) / 1000"
    by (simp add: sum_list_replicate)
  from extract_volumes_formula
    [where load = demo_load and mwp1_path = "''mri/mwp1scan.nii''" and mwp2_path = None, OF l1]
  obtain loc' where
    a': "measure_volumes demo_load ''mri/mwp1scan.nii'' None = Inr loc'"
    and w': "wm_volume_cm3 loc' = gm_volume_cm3 loc' * (88 / 100)"
    and e': "zooms ?gm = [3 / 2, 3 / 2, 3 / 2] \<and> sum_list (voxels ?gm) = 400000 \<longrightarrow>
              gm_volume_cm3 loc' = 1350"
    by blast
  from e' z sm w' have wv': "wm_volume_cm3 loc' = 1350 * (88 / 100)" by simp
  show ?thesis using a a' gv wv wv' by simp
qed


section \<open>Percentile normalisation\<close>

lemma percentile_index_bound:
  assumes "xs \<noteq> []"
  shows "nat \<lfloor>real (length xs - 1) * 99 / 100\<rfloor> < length xs"
proof -
  have "real (length xs - 1) * 99 / 100 \<le> real (length xs - 1)" by simp
  then have "\<lfloor>real (length xs - 1) * 99 / 100\<rfloor> \<le> int (length xs - 1)"
    by (metis floor_mono floor_of_nat)
  then have "nat \<lfloor>real (length xs - 1) * 99 / 100\<rfloor> \<le> length xs - 1" by linarith
  with assms show ?thesis by (cases xs) auto
qed

lemma np_percentile_all_zero:
  assumes "xs \<noteq> []" and "\<forall>v \<in> set xs. v = 0"
  shows "np_percentile xs 99 = 0"
proof -
  let ?lo = "nat \<lfloor>real (length xs - 1) * 99 / 100\<rfloor>"
  let ?hi = "min (?lo + 1) (length xs - 1)"
  have lo: "?lo < length (sort xs)"
    unfolding length_sort by (rule percentile_index_bound [OF assms(1)])
  have hi: "?hi < length (sort xs)" using assms(1) by (cases xs) auto
  have "sort xs ! ?lo \<in> set (sort xs)" using lo by (rule nth_mem)
  then have a: "sort xs ! ?lo = 0" using assms(2) by simp
  have "sort xs ! ?hi \<in> set (sort xs)" using hi by (rule nth_mem)
  then have b: "sort xs ! ?hi = 0" using assms(2) by simp
  show ?thesis unfolding np_percentile_def Let_def a b by simp
qed

lemma scaled_in_range:
  assumes "p \<noteq> (0 :: real)"
  shows "0 \<le> np_clip v 0 p / p * 255 \<and> np_clip v 0 p / p * 255 \<le> 255"
proof (cases "0 < p")
  case True
  define q where "q = np_clip v 0 p / p"
  have "0 \<le> np_clip v 0 p" "np_clip v 0 p \<le> p"
    using True by (auto simp: np_clip_def)
  then have "0 \<le> q" "q \<le> 1"
    using True by (simp_all add: q_def)
  then have "0 \<le> q * 255 \<and> q * 255 \<le> 255" by simp
  then show ?thesis by (simp only: q_def)
next
  case False
  with assms have "p < 0" by simp
  then have "np_clip v 0 p = p" by (auto simp: np_clip_def)
  then show ?thesis using assms by simp
qed

text \<open>
  Claim C9. \<open>_normalize_intensity\<close> takes the 99th percentile of all voxels. When the
  percentile is zero the volume is returned as it is, and nothing is divided; this is the
  case for every volume of zeros. Otherwise every value is clipped with \<open>numpy.clip\<close> to
  the bounds 0 and the percentile, divided by the percentile and multiplied by 255, and
  every resulting value lies between 0 and 255; for a positive percentile the clipped
  values lie between 0 and the percentile.
\<close>

theorem normalize_intensity_safe:
  "(data \<noteq> [] \<and> np_percentile data 99 = 0 \<longrightarrow> normalize_intensity data = data) \<and>
   ((\<forall>v \<in> set data. v = 0) \<longrightarrow> normalize_intensity data = data) \<and>
   (data \<noteq> [] \<and> np_percentile data 99 \<noteq> 0 \<longrightarrow>
      normalize_intensity data =
        map (\<lambda>v. np_clip v 0 (np_percentile data 99) / np_percentile data 99 * 255) data \<and>
      (\<forall>w \<in> set (normalize_intensity data). 0 \<le> w \<and> w \<le> 255)) \<and>
   (0 < np_percentile data 99 \<longrightarrow>
      (\<forall>v \<in> set data. 0 \<le> np_clip v 0 (np_percentile data 99) \<and>
                         np_clip v 0 (np_percentile data 99) \<le> np_percentile data 99))"
proof -
  have a: "normalize_intensity data = data" if "data \<noteq> []" "np_percentile data 99 = 0"
    using that by (simp add: normalize_intensity_def)
  have b: "normalize_intensity data = data" if z: "\<forall>v \<in> set data. v = 0"
  proof (cases "data = []")
    case True
    then show ?thesis by (simp add: normalize_intensity_def)
  next
    case False
    then show ?thesis using np_percentile_all_zero [OF False z] a by simp
  qed
  have c: "normalize_intensity data =
        map (\<lambda>v. np_clip v 0 (np_percentile data 99) / np_percentile data 99 * 255) data \<and>
      (\<forall>w \<in> set (normalize_intensity data). 0 \<le> w \<and> w \<le> 255)"
    if "data \<noteq> []" "np_percentile data 99 \<noteq> 0"
  proof -
    have eq: "normalize_intensity data =
        map (\<lambda>v. np_clip v 0 (np_percentile data 99) / np_percentile data 99 * 255) data"
      using that by (simp add: normalize_intensity_def Let_def)
    show ?thesis
      unfolding eq using scaled_in_range [OF that(2)] by auto
  qed
  have d: "\<forall>v \<in> set data. 0 \<le> np_clip v 0 (np_percentile data 99) \<and>
                         np_clip v 0 (np_percentile data 99) \<le> np_percentile data 99"
    if "0 < np_percentile data 99"
    using that by (auto simp: np_clip_def)
  from a b c d show ?thesis by blast
qed

lemma demo_percentile: "np_percentile [0, 50, 100, 200] 99 = 197"
  by (simp add: np_percentile_def Let_def)

theorem normalize_intensity_safe_witness:
  "normalize_intensity [0, 0, 0] = [0, 0, 0] \<and>
   normalize_intensity [0, 50, 100, 200] = [0, 50 / 197 * 255, 100 / 197 * 255, 255]"
proof -
  from normalize_intensity_safe [of "[0, 0, 0]"]
  have z: "normalize_intensity [0, 0, 0] = [0, 0, 0]" by simp
  from normalize_intensity_safe [of "[0, 50, 100, 200]"]
  have "normalize_intensity [0, 50, 100, 200] =
        map (\<lambda>v. np_clip v 0 197 / 197 * 255) [0, 50, 100, 200]"
    by (simp add: demo_percentile)
  then have "normalize_intensity [0, 50, 100, 200] = [0, 50 / 197 * 255, 100 / 197 * 255, 255]"
    by (simp add: np_clip_def)
  with z show ?thesis by simp
qed

section \<open>The steps of the background run\<close>

lemma map_of_replace:
  "map_of (map (\<lambda>(a, b). if a = k then (a, v) else (a, b)) d) k' =
     (if k' = k then (case map_of d k of None \<Rightarrow> None | Some w \<Rightarrow> Some v) else map_of d k')"
proof (induction d arbitrary: k')
  case Nil
  show ?case by simp
next
  case (Cons x d)
  obtain a b where x: "x = (a, b)" by (cases x)
  show ?case
  proof (cases "a = k")
    case True
    then show ?thesis by (simp add: x Cons.IH)
  next
    case False
    then show ?thesis by (simp add: x Cons.IH)
  qed
qed

lemma map_of_dict_set:
  "map_of (dict_set d k v) k' = (if k' = k then Some v else map_of d k')"
proof (cases "k \<in> fst ` set d")
  case True
  then obtain w where "map_of d k = Some w"
    by (metis map_of_eq_None_iff not_Some_eq)
  with True show ?thesis by (simp add: dict_set_def map_of_replace)
next
  case False
  then have "map_of d k = None" by (simp add: map_of_eq_None_iff)
  with False show ?thesis by (simp add: dict_set_def map_add_def split: option.splits)
qed

lemma uss_fields:
  "session_status (update_session_status env st s) =
     (if db_update_status_ok env st then st else session_status s)"
  "temp_file_present (update_session_status env st s) = temp_file_present s"
  "uploaded_urls (update_session_status env st s) = uploaded_urls s"
  "report_errors (update_session_status env st s) = report_errors s"
  "trace (update_session_status env st s) = trace s @ [StatusWrite st]"
  by (simp_all add: update_session_status_def)

lemma uv_fields:
  "session_status (upload_visualization env viz s) = session_status s"
  "temp_file_present (upload_visualization env viz s) = temp_file_present s"
  by (auto simp: upload_visualization_def split: prod.splits sum.splits option.splits)

lemma uv_urls_other:
  "k' \<noteq> url_key \<Longrightarrow>
   map_of (uploaded_urls (upload_visualization env (img, path, url_key) s)) k' =
   map_of (uploaded_urls s) k'"
  by (auto simp: upload_visualization_def map_of_dict_set split: sum.splits option.splits)

lemma uv_trace:
  "\<exists>tr. trace (upload_visualization env (img, path, url_key) s) = trace s @ tr \<and>
        set tr \<subseteq> {ChartUpload url_key}"
  by (auto simp: upload_visualization_def split: sum.splits option.splits)

lemma gr_fields:
  "session_status (generate_report env ap mlr cfg s) = session_status s"
  "temp_file_present (generate_report env ap mlr cfg s) = temp_file_present s"
  by (auto simp: generate_report_def Let_def split: prod.splits sum.splits option.splits)

lemma gr_trace:
  "trace (generate_report env ap mlr (t, k) s) = trace s @ [Report t]"
  by (auto simp: generate_report_def Let_def split: sum.splits option.splits)

lemma gr_urls:
  "ap = ''report_assets/'' @ sid \<Longrightarrow>
   url_truthy (map_of (uploaded_urls (generate_report env ap mlr (t, k) s)) k') =
     (if k' = k \<and> report_generated env sid mlr t then True
      else url_truthy (map_of (uploaded_urls s) k'))"
  by (auto simp: generate_report_def report_generated_def Let_def map_of_dict_set url_truthy_def
      split: sum.splits option.splits)

lemma gr_errors_bad:
  "ap = ''report_assets/'' @ sid \<Longrightarrow> \<not> report_generated env sid mlr t \<Longrightarrow>
   report_errors (generate_report env ap mlr (t, k) s) \<noteq> []"
  by (auto simp: generate_report_def report_generated_def Let_def url_truthy_def
      split: sum.splits option.splits)

lemma gr_errors_mono:
  "report_errors s \<noteq> [] \<Longrightarrow> report_errors (generate_report env ap mlr cfg s) \<noteq> []"
  by (auto simp: generate_report_def Let_def split: prod.splits sum.splits option.splits)

lemma fold_uv_temp:
  "temp_file_present (fold (upload_visualization env) vs s) = temp_file_present s"
  by (induction vs arbitrary: s) (simp_all add: uv_fields)

lemma fold_gr_temp:
  "temp_file_present (fold (generate_report env ap mlr) cfgs s) = temp_file_present s"
  by (induction cfgs arbitrary: s) (simp_all add: gr_fields)

lemma reports_and_status_temp:
  "temp_file_present (reports_and_status env sid mlr sp vc cc s) = temp_file_present s"
  by (simp add: reports_and_status_def Let_def uss_fields fold_gr_temp uv_fields)

lemma chart_stages_temp:
  "temp_file_present (snd (chart_stages env sid mlr sim s)) = temp_file_present s"
  by (simp add: chart_stages_def Let_def reports_and_status_temp
      split: sum.splits prod.splits)

lemma analysis_stages_temp:
  "temp_file_present (snd (analysis_stages env sid fp mlr s)) = temp_file_present s"
  by (simp add: analysis_stages_def Let_def chart_stages_temp split: sum.splits prod.splits)

lemma try_body_temp:
  "temp_file_present (snd (try_body env sid fp atype s)) = temp_file_present s"
  by (simp add: try_body_def Let_def analysis_stages_temp uss_fields
      split: sum.splits prod.splits option.splits)

lemma except_handler_temp:
  "temp_file_present (except_handler env s) = temp_file_present s"
  by (simp add: except_handler_def Let_def uss_fields)

lemma finally_cleanup_temp:
  "temp_file_present (finally_cleanup env s) = (temp_file_present s \<and> \<not> os_remove_ok env)"
  by (simp add: finally_cleanup_def)

lemma run_temp_file:
  assumes "get_supabase_client env = None"
  shows "fst (run_analysis_background env sid fp atype s0) = None"
    and "temp_file_present (snd (run_analysis_background env sid fp atype s0)) =
           (temp_file_present s0 \<and> \<not> os_remove_ok env)"
proof -
  obtain r s where tb: "try_body env sid fp atype (s0\<lparr>uploaded_urls := [], report_errors := []\<rparr>) = (r, s)"
    by (cases "try_body env sid fp atype (s0\<lparr>uploaded_urls := [], report_errors := []\<rparr>)")
  have t: "temp_file_present s = temp_file_present s0"
    using try_body_temp [of env sid fp atype "s0\<lparr>uploaded_urls := [], report_errors := []\<rparr>"] tb
    by simp
  show "fst (run_analysis_background env sid fp atype s0) = None"
    using assms tb by (cases r) (simp_all add: run_analysis_background_def)
  show "temp_file_present (snd (run_analysis_background env sid fp atype s0)) =
           (temp_file_present s0 \<and> \<not> os_remove_ok env)"
    using assms tb t
    by (cases r) (simp_all add: run_analysis_background_def finally_cleanup_temp
        except_handler_temp)
qed

lemma three_reports:
  fixes s2 :: run_state
  assumes none: "\<not> url_truthy (map_of (uploaded_urls s2) ''technical_pdf_url'')"
      "\<not> url_truthy (map_of (uploaded_urls s2) ''clinician_pdf_url'')"
      "\<not> url_truthy (map_of (uploaded_urls s2) ''patient_pdf_url'')"
    and s3_def: "s3 = fold (generate_report env (''report_assets/'' @ sid) mlr) pdf_configs s2"
  shows "final_status (uploaded_urls s3) (report_errors s3) = decided_status env sid mlr"
    and "trace s3 = trace s2 @ [Report ''technical'', Report ''clinician'', Report ''patient'']"
    and "session_status s3 = session_status s2"
proof -
  define ap where "ap = ''report_assets/'' @ sid"
  let ?a = "generate_report env ap mlr (''technical'', ''technical_pdf_url'') s2"
  let ?b = "generate_report env ap mlr (''clinician'', ''clinician_pdf_url'') ?a"
  let ?c = "generate_report env ap mlr (''patient'', ''patient_pdf_url'') ?b"
  have s3: "s3 = ?c" by (simp add: s3_def pdf_configs_def ap_def)
  have t: "url_truthy (map_of (uploaded_urls ?c) ''technical_pdf_url'') =
             report_generated env sid mlr ''technical''"
    using none by (simp add: gr_urls [OF ap_def])
  have c: "url_truthy (map_of (uploaded_urls ?c) ''clinician_pdf_url'') =
             report_generated env sid mlr ''clinician''"
    using none by (simp add: gr_urls [OF ap_def])
  have p: "url_truthy (map_of (uploaded_urls ?c) ''patient_pdf_url'') =
             report_generated env sid mlr ''patient''"
    using none by (simp add: gr_urls [OF ap_def])
  have any: "has_any_report (uploaded_urls ?c) = any_report_generated env sid mlr"
    unfolding has_any_report_def any_report_generated_def t c p ..
  have errs: "report_errors ?c \<noteq> []" if "\<not> any_report_generated env sid mlr"
  proof -
    from that have "\<not> report_generated env sid mlr ''patient''"
      by (simp add: any_report_generated_def)
    then show ?thesis by (rule gr_errors_bad [OF ap_def])
  qed
  show "final_status (uploaded_urls s3) (report_errors s3) = decided_status env sid mlr"
    unfolding s3 final_status_def decided_status_def any using errs by auto
  show "trace s3 = trace s2 @ [Report ''technical'', Report ''clinician'', Report ''patient'']"
    unfolding s3 by (simp add: gr_trace)
  show "session_status s3 = session_status s2"
    unfolding s3 by (simp add: gr_fields)
qed

lemma three_uploads:
  fixes s :: run_state
  assumes "uploaded_urls s = []"
    and s1_def: "s1 = fold (upload_visualization env)
            [(sp, p1, ''similarity_plot_url''), (vc, p2, ''volume_chart_url''),
             (cc, p3, ''confidence_chart_url'')] s"
  shows "\<not> url_truthy (map_of (uploaded_urls s1) ''technical_pdf_url'')"
    and "\<not> url_truthy (map_of (uploaded_urls s1) ''clinician_pdf_url'')"
    and "\<not> url_truthy (map_of (uploaded_urls s1) ''patient_pdf_url'')"
    and "session_status s1 = session_status s"
    and "\<exists>tr. trace s1 = trace s @ tr \<and>
           set tr \<subseteq> {ChartUpload ''similarity_plot_url'', ChartUpload ''volume_chart_url'',
                      ChartUpload ''confidence_chart_url''}"
proof -
  let ?a = "upload_visualization env (sp, p1, ''similarity_plot_url'') s"
  let ?b = "upload_visualization env (vc, p2, ''volume_chart_url'') ?a"
  let ?c = "upload_visualization env (cc, p3, ''confidence_chart_url'') ?b"
  have s1: "s1 = ?c" by (simp add: s1_def)
  show "\<not> url_truthy (map_of (uploaded_urls s1) ''technical_pdf_url'')"
    unfolding s1 using assms(1) by (simp add: uv_urls_other url_truthy_def)
  show "\<not> url_truthy (map_of (uploaded_urls s1) ''clinician_pdf_url'')"
    unfolding s1 using assms(1) by (simp add: uv_urls_other url_truthy_def)
  show "\<not> url_truthy (map_of (uploaded_urls s1) ''patient_pdf_url'')"
    unfolding s1 using assms(1) by (simp add: uv_urls_other url_truthy_def)
  show "session_status s1 = session_status s"
    unfolding s1 by (simp add: uv_fields)
  obtain t1 where t1: "trace ?a = trace s @ t1" "set t1 \<subseteq> {ChartUpload ''similarity_plot_url''}"
    using uv_trace [of env sp p1 "''similarity_plot_url''" s] by blast
  obtain t2 where t2: "trace ?b = trace ?a @ t2" "set t2 \<subseteq> {ChartUpload ''volume_chart_url''}"
    using uv_trace [of env vc p2 "''volume_chart_url''" ?a] by blast
  obtain t3 where t3: "trace ?c = trace ?b @ t3" "set t3 \<subseteq> {ChartUpload ''confidence_chart_url''}"
    using uv_trace [of env cc p3 "''confidence_chart_url''" ?b] by blast
  have "trace ?c = trace s @ (t1 @ t2 @ t3)" using t1(1) t2(1) t3(1) by simp
  moreover have "set (t1 @ t2 @ t3) \<subseteq> {ChartUpload ''similarity_plot_url'',
      ChartUpload ''volume_chart_url'', ChartUpload ''confidence_chart_url''}"
    using t1(2) t2(2) t3(2) by auto
  ultimately show "\<exists>tr. trace s1 = trace s @ tr \<and>
           set tr \<subseteq> {ChartUpload ''similarity_plot_url'', ChartUpload ''volume_chart_url'',
                      ChartUpload ''confidence_chart_url''}"
    unfolding s1 by blast
qed

lemma reports_and_status_effect:
  assumes "uploaded_urls s = []"
  shows "session_status (reports_and_status env sid mlr sp vc cc s) =
           (if db_update_status_ok env (decided_status env sid mlr)
            then decided_status env sid mlr else session_status s)"
    and "\<exists>tr. set tr \<subseteq> chart_upload_events \<and>
           trace (reports_and_status env sid mlr sp vc cc s) =
             trace s @ tr @
             [ReportData, Report ''technical'', Report ''clinician'', Report ''patient'',
              ReportUrlsWrite, StatusWrite (decided_status env sid mlr)]"
proof -
  define ap where "ap = ''report_assets/'' @ sid"
  define s1 where "s1 = fold (upload_visualization env)
            [(sp, ap @ ''/similarity_plot.png'', ''similarity_plot_url''),
             (vc, ap @ ''/volume_chart.png'', ''volume_chart_url''),
             (cc, ap @ ''/confidence_chart.png'', ''confidence_chart_url'')] s"
  define s2 where "s2 = s1\<lparr>trace := trace s1 @ [ReportData]\<rparr>"
  define s3 where "s3 = fold (generate_report env (''report_assets/'' @ sid) mlr) pdf_configs s2"
  note up = three_uploads [OF assms s1_def]
  have none: "\<not> url_truthy (map_of (uploaded_urls s2) ''technical_pdf_url'')"
      "\<not> url_truthy (map_of (uploaded_urls s2) ''clinician_pdf_url'')"
      "\<not> url_truthy (map_of (uploaded_urls s2) ''patient_pdf_url'')"
    using up(1-3) by (simp_all add: s2_def)
  note rep = three_reports [OF none s3_def]
  have unfold: "reports_and_status env sid mlr sp vc cc s =
      update_session_status env (final_status (uploaded_urls s3) (report_errors s3))
        (s3\<lparr>trace := trace s3 @ [ReportUrlsWrite]\<rparr>)"
    unfolding reports_and_status_def Let_def s3_def s2_def s1_def ap_def ..
  have st: "session_status s3 = session_status s"
    using rep(3) up(4) by (simp add: s2_def)
  show "session_status (reports_and_status env sid mlr sp vc cc s) =
           (if db_update_status_ok env (decided_status env sid mlr)
            then decided_status env sid mlr else session_status s)"
    unfolding unfold by (simp add: uss_fields rep(1) st)
  from up(5) obtain tr where tr: "trace s1 = trace s @ tr" "set tr \<subseteq> chart_upload_events"
    unfolding chart_upload_events_def by blast
  have "trace (reports_and_status env sid mlr sp vc cc s) =
             trace s @ tr @
             [ReportData, Report ''technical'', Report ''clinician'', Report ''patient'',
              ReportUrlsWrite, StatusWrite (decided_status env sid mlr)]"
    unfolding unfold by (simp add: uss_fields rep(1) rep(2) s2_def tr(1))
  with tr(2) show "\<exists>tr. set tr \<subseteq> chart_upload_events \<and>
           trace (reports_and_status env sid mlr sp vc cc s) =
             trace s @ tr @
             [ReportData, Report ''technical'', Report ''clinician'', Report ''patient'',
              ReportUrlsWrite, StatusWrite (decided_status env sid mlr)]"
    by blast
qed

lemma try_body_reaches_reports:
  assumes reach: "reaches_reports env fp atype mlr"
    and urls: "uploaded_urls s0 = []"
  shows "\<exists>s pre. try_body env sid fp atype s0 = (None, s) \<and>
           session_status s =
             (if db_update_status_ok env (decided_status env sid mlr)
              then decided_status env sid mlr
              else if db_update_status_ok env ''processing'' then ''processing''
              else session_status s0) \<and>
           trace s = pre @
             [ReportData, Report ''technical'', Report ''clinician'', Report ''patient'',
              ReportUrlsWrite, StatusWrite (decided_status env sid mlr)]"
proof -
  from reach obtain tr where rm: "run_model (ml env) fp atype = (Inr mlr, tr)"
    by (cases "run_model (ml env) fp atype") (auto simp: reaches_reports_def)
  obtain pid err where cp: "create_prediction_record env mlr = (pid, err)"
    by (cases "create_prediction_record env mlr")
  from reach cp have err: "err = None \<or> err = Some []"
    by (auto simp: reaches_reports_def url_truthy_def split: option.splits)
  from reach obtain sim where sim: "run_similarity_analysis env mlr = Inr sim"
    by (auto simp: reaches_reports_def returns_def split: sum.splits)
  from reach obtain vc where vc: "generate_volume_comparison_chart env mlr = Inr vc"
    by (auto simp: reaches_reports_def returns_def split: sum.splits)
  obtain probs classes where ca: "chart_arguments mlr = (probs, classes)"
    by (cases "chart_arguments mlr")
  from reach ca obtain cc where cc: "generate_confidence_chart env probs classes = Inr cc"
    by (auto simp: reaches_reports_def returns_def split: sum.splits)
  obtain su vt where vs: "viewer_slices env fp = (su, vt)"
    by (cases "viewer_slices env fp")
  let ?sa = "update_session_status env ''processing'' s0"
  define sb where "sb = ?sa\<lparr>trace := trace ?sa @ tr @ [PredictionRecord]\<rparr>"
  define sc where "sc = sb\<lparr>trace := trace sb @ vt @ [Similarity]\<rparr>"
  define sd where "sd = sc\<lparr>trace := trace sc @ [Charts]\<rparr>"
  define sp where "sp = (case dict_get sim ''plot_base64'' of None \<Rightarrow> PNone | Some v \<Rightarrow> v)"
  define s where "s = reports_and_status env sid mlr sp vc cc sd"
  have chart: "chart_stages env sid mlr sim sc = (None, s)"
    by (simp add: chart_stages_def Let_def vc ca cc s_def sd_def sp_def)
  have ana: "analysis_stages env sid fp mlr sb = (None, s)"
    by (simp add: analysis_stages_def Let_def vs sim chart [unfolded sc_def])
  have tb: "try_body env sid fp atype s0 = (None, s)"
    using err by (auto simp: try_body_def Let_def rm cp ana [unfolded sb_def])
  have u: "uploaded_urls sd = []"
    by (simp add: sd_def sc_def sb_def uss_fields urls)
  have stat: "session_status sd =
      (if db_update_status_ok env ''processing'' then ''processing'' else session_status s0)"
    by (simp add: sd_def sc_def sb_def uss_fields)
  from reports_and_status_effect [OF u, of env sid mlr sp vc cc]
  obtain ct where
    a: "session_status s =
           (if db_update_status_ok env (decided_status env sid mlr)
            then decided_status env sid mlr else session_status sd)"
    and b: "trace s = trace sd @ ct @
             [ReportData, Report ''technical'', Report ''clinician'', Report ''patient'',
              ReportUrlsWrite, StatusWrite (decided_status env sid mlr)]"
    unfolding s_def by blast
  have "trace s = (trace sd @ ct) @
             [ReportData, Report ''technical'', Report ''clinician'', Report ''patient'',
              ReportUrlsWrite, StatusWrite (decided_status env sid mlr)]"
    using b by simp
  with tb a stat show ?thesis by (intro exI [of _ s] exI [of _ "trace sd @ ct"]) simp
qed

section \<open>The final status\<close>

lemma demo_preprocess:
  "preprocess demo_ml_env ''uploads/sess1_scan.nii'' = (Inr (''uploads/sess1_scan.nii'', False), [Preprocess])"
  by (simp add: preprocess_def demo_ml_env_def demo_classifier_def posix_basename_def)

lemma demo_inference:
  "inference demo_ml_env ''uploads/sess1_scan.nii'' ''multi-disease''
     [''slices/slice_1.png'', ''slices/slice_2.png'', ''slices/slice_3.png''] =
   (Inr (projr (predict_patient (new_predictor True) demo_classifier
           [''slices/slice_1.png'', ''slices/slice_2.png'', ''slices/slice_3.png''] 0)),
    [Inference])"
proof -
  have av: "is_available (new_predictor True)"
    by (simp add: is_available_def new_predictor_def)
  show ?thesis
    unfolding inference_def Let_def
    by (simp add: demo_ml_env_def av demo_run)
qed

lemma demo_volumes:
  "pipeline_volumes demo_ml_env ''uploads/sess1_scan.nii'' ''AD'' =
     (generate_consistent_volumes ''AD'', [VolumeEstimate])"
  by (simp add: pipeline_volumes_def demo_ml_env_def demo_classifier_def posix_basename_def)

lemma demo_run_model:
  "run_model demo_ml_env ''uploads/sess1_scan.nii'' ''multi-disease'' =
     (Inr (success_response demo_ml_env ''multi-disease'' [''CN'', ''MCI'', ''AD''] ''AD''
             (80 / 100) (generate_consistent_volumes ''AD'') False),
      [Preprocess, SliceExtraction, Inference, VolumeEstimate])"
proof -
  have mock: "use_mock_model demo_ml_env = False" by (simp add: demo_ml_env_def)
  have sl: "extract_middle_slices demo_ml_env ''uploads/sess1_scan.nii'' =
      Inr [''slices/slice_1.png'', ''slices/slice_2.png'', ''slices/slice_3.png'']"
    by (simp add: demo_ml_env_def)
  have at: "map_of ANALYSIS_TYPES ''multi-disease'' = Some [''CN'', ''MCI'', ''AD'']"
    by (simp add: ANALYSIS_TYPES_def)
  show ?thesis
    unfolding run_model_def Let_def
    by (simp add: mock demo_preprocess sl demo_inference demo_run demo_volumes at)
qed

lemma run_reaches_decision:
  assumes client: "get_supabase_client env = None"
    and reach: "reaches_reports env fp atype mlr"
  shows "\<exists>s pre.
           run_analysis_background env sid fp atype s0 = (None, s) \<and>
           trace s = pre @
             [ReportData, Report ''technical'', Report ''clinician'', Report ''patient'',
              ReportUrlsWrite, StatusWrite (decided_status env sid mlr)]
             @ (if temp_file_present s0 then [TempFileRemoval] else []) \<and>
           session_status s =
             (if db_update_status_ok env (decided_status env sid mlr)
              then decided_status env sid mlr
              else if db_update_status_ok env ''processing'' then ''processing''
              else session_status s0)"
proof -
  let ?s0 = "s0\<lparr>uploaded_urls := [], report_errors := []\<rparr>"
  have u: "uploaded_urls ?s0 = []" by simp
  from try_body_reaches_reports [OF reach u, of sid]
  obtain s pre where tb: "try_body env sid fp atype ?s0 = (None, s)"
    and st: "session_status s =
             (if db_update_status_ok env (decided_status env sid mlr)
              then decided_status env sid mlr
              else if db_update_status_ok env ''processing'' then ''processing''
              else session_status s0)"
    and tr: "trace s = pre @
             [ReportData, Report ''technical'', Report ''clinician'', Report ''patient'',
              ReportUrlsWrite, StatusWrite (decided_status env sid mlr)]"
    by auto
  have tmp: "temp_file_present s = temp_file_present s0"
    using try_body_temp [of env sid fp atype ?s0] tb by simp
  have run: "run_analysis_background env sid fp atype s0 = (None, finally_cleanup env s)"
    by (simp add: run_analysis_background_def client tb)
  have a: "trace (finally_cleanup env s) = pre @
             [ReportData, Report ''technical'', Report ''clinician'', Report ''patient'',
              ReportUrlsWrite, StatusWrite (decided_status env sid mlr)]
             @ (if temp_file_present s0 then [TempFileRemoval] else [])"
    by (simp add: finally_cleanup_def tmp tr)
  have b: "session_status (finally_cleanup env s) = session_status s"
    by (simp add: finally_cleanup_def)
  from run a b st show ?thesis by (intro exI [of _ "finally_cleanup env s"] exI [of _ pre]) simp
qed

text \<open>
  Claim C3. When the storage client is available and the stages before the reports raise
  nothing, the background run ends without an exception, the three reports are attempted
  in the order technical, clinician, patient, and only then the status is decided and
  written: the last events of the run are the three report attempts, the write of the
  report URLs and the write of the decided status (followed by the removal of the
  uploaded file). The decided status is \<open>completed\<close> when at least one of the three reports
  was generated, whatever happened to the other reports and to the chart uploads, and
  \<open>failed\<close> when none was generated. When the update of the session record succeeds, that
  status is the status of the session afterwards.
\<close>

theorem final_status_decision:
  assumes "get_supabase_client env = None"
    and "reaches_reports env file_path analysis_type ml_results"
  shows "\<exists>s pre.
           run_analysis_background env session_id file_path analysis_type s0 = (None, s) \<and>
           trace s = pre @
             [ReportData, Report ''technical'', Report ''clinician'', Report ''patient'',
              ReportUrlsWrite, StatusWrite (decided_status env session_id ml_results)]
             @ (if temp_file_present s0 then [TempFileRemoval] else []) \<and>
           decided_status env session_id ml_results =
             (if any_report_generated env session_id ml_results then ''completed''
              else ''failed'') \<and>
           (db_update_status_ok env (decided_status env session_id ml_results) \<longrightarrow>
              session_status s = decided_status env session_id ml_results)"
proof -
  from run_reaches_decision [OF assms, of session_id s0]
  obtain s pre where
    "run_analysis_background env session_id file_path analysis_type s0 = (None, s)"
    "trace s = pre @
             [ReportData, Report ''technical'', Report ''clinician'', Report ''patient'',
              ReportUrlsWrite, StatusWrite (decided_status env session_id ml_results)]
             @ (if temp_file_present s0 then [TempFileRemoval] else [])"
    "session_status s =
             (if db_update_status_ok env (decided_status env session_id ml_results)
              then decided_status env session_id ml_results
              else if db_update_status_ok env ''processing'' then ''processing''
              else session_status s0)"
    by blast
  then show ?thesis
    by (intro exI [of _ s] exI [of _ pre]) (simp add: decided_status_def)
qed

lemma demo_reaches:
  "reaches_reports partial_report_env ''uploads/sess1_scan.nii'' ''multi-disease''
     (success_response demo_ml_env ''multi-disease'' [''CN'', ''MCI'', ''AD''] ''AD''
             (80 / 100) (generate_consistent_volumes ''AD'') False)"
  "reaches_reports no_report_env ''uploads/sess1_scan.nii'' ''multi-disease''
     (success_response demo_ml_env ''multi-disease'' [''CN'', ''MCI'', ''AD''] ''AD''
             (80 / 100) (generate_consistent_volumes ''AD'') False)"
  by (simp_all add: reaches_reports_def partial_report_env_def no_report_env_def demo_bg_env_def
      demo_run_model url_truthy_def returns_def)

theorem final_status_decision_witness:
  "session_status (snd (run_analysis_background partial_report_env ''sess1''
      ''uploads/sess1_scan.nii'' ''multi-disease'' uploaded_state)) = ''completed'' \<and>
   session_status (snd (run_analysis_background no_report_env ''sess1''
      ''uploads/sess1_scan.nii'' ''multi-disease'' uploaded_state)) = ''failed''"
proof -
  let ?mlr = "success_response demo_ml_env ''multi-disease'' [''CN'', ''MCI'', ''AD''] ''AD''
             (80 / 100) (generate_consistent_volumes ''AD'') False"
  have c1: "get_supabase_client partial_report_env = None"
    by (simp add: partial_report_env_def demo_bg_env_def)
  have c2: "get_supabase_client no_report_env = None"
    by (simp add: no_report_env_def demo_bg_env_def)
  have g1: "any_report_generated partial_report_env ''sess1'' ?mlr"
    by (simp add: any_report_generated_def report_generated_def partial_report_env_def
        demo_bg_env_def url_truthy_def)
  have g2: "\<not> any_report_generated no_report_env ''sess1'' ?mlr"
    by (simp add: any_report_generated_def report_generated_def no_report_env_def
        demo_bg_env_def)
  have d1: "db_update_status_ok partial_report_env st" for st
    by (simp add: partial_report_env_def demo_bg_env_def)
  have d2: "db_update_status_ok no_report_env st" for st
    by (simp add: no_report_env_def demo_bg_env_def)
  from final_status_decision [OF c1 demo_reaches(1), of "''sess1''" uploaded_state]
  have a: "session_status (snd (run_analysis_background partial_report_env ''sess1''
      ''uploads/sess1_scan.nii'' ''multi-disease'' uploaded_state)) = ''completed''"
    using g1 d1 by auto
  from final_status_decision [OF c2 demo_reaches(2), of "''sess1''" uploaded_state]
  have b: "session_status (snd (run_analysis_background no_report_env ''sess1''
      ''uploads/sess1_scan.nii'' ''multi-disease'' uploaded_state)) = ''failed''"
    using g2 d2 by auto
  from a b show ?thesis by simp
qed

section \<open>A run whose slice extraction fails\<close>

text \<open>
  Claim C4 at a scan of session 2 in which the slicer finds no slice, while the database,
  the storage and the report renderer work. \<open>run_model\<close> stops after the slice
  extraction and returns the error response, so that neither the model nor the
  volumetrics run. The background run does not look at that response: it records it as
  the prediction, goes through the similarity analysis and the charts, attempts and
  uploads all three reports and leaves the session \<open>completed\<close>.
\<close>

theorem slice_extraction_failure_run:
  "run_model demo_ml_env ''uploads/sess2_corrupt.nii'' ''multi-disease'' =
     (Inr (error_response ''Slice extraction failed: Slicer returned no images.''),
      [Preprocess, SliceExtraction]) \<and>
   run_analysis_background demo_bg_env ''sess2'' ''uploads/sess2_corrupt.nii'' ''multi-disease''
     uploaded_state =
   (None,
    \<lparr>session_status = ''completed'', temp_file_present = False,
     uploaded_urls =
       [(''similarity_plot_url'', ''https://storage/report_assets/sess2/similarity_plot.png''),
        (''volume_chart_url'', ''https://storage/report_assets/sess2/volume_chart.png''),
        (''confidence_chart_url'', ''https://storage/report_assets/sess2/confidence_chart.png''),
        (''technical_pdf_url'', ''https://storage/report_assets/sess2/technical_report.pdf''),
        (''clinician_pdf_url'', ''https://storage/report_assets/sess2/clinician_report.pdf''),
        (''patient_pdf_url'', ''https://storage/report_assets/sess2/patient_report.pdf'')],
     report_errors = [],
     trace =
       [StatusWrite ''processing'', Preprocess, SliceExtraction, PredictionRecord,
        ViewerSlices, Similarity, Charts, ChartUpload ''similarity_plot_url'',
        ChartUpload ''volume_chart_url'', ChartUpload ''confidence_chart_url'', ReportData,
        Report ''technical'', Report ''clinician'', Report ''patient'', ReportUrlsWrite,
        StatusWrite ''completed'', TempFileRemoval]\<rparr>)"
  by code_simp

section \<open>Removal of the uploaded file\<close>

text \<open>
  Claim C10, as the code has it. Once the storage client has been obtained, the
  background run never lets an exception escape, and on every path through it, whichever
  stage fails, the uploaded file is present afterwards exactly when it was present before
  and its removal failed. In particular the file is absent after the run whenever
  \<open>os.remove\<close> succeeds.
\<close>

theorem temp_file_removal:
  assumes "get_supabase_client env = None"
  shows "fst (run_analysis_background env session_id file_path analysis_type s0) = None \<and>
         temp_file_present
           (snd (run_analysis_background env session_id file_path analysis_type s0)) =
           (temp_file_present s0 \<and> \<not> os_remove_ok env) \<and>
         (os_remove_ok env \<longrightarrow>
            \<not> temp_file_present
                (snd (run_analysis_background env session_id file_path analysis_type s0)))"
  using run_temp_file [OF assms, of session_id file_path analysis_type s0] by simp

theorem temp_file_removal_witness:
  "temp_file_present uploaded_state \<and>
   \<not> temp_file_present
       (snd (run_analysis_background demo_bg_env ''sess1'' ''uploads/sess1_scan.nii''
               ''multi-disease'' uploaded_state)) \<and>
   \<not> temp_file_present
       (snd (run_analysis_background no_report_env ''sess1'' ''uploads/sess1_scan.nii''
               ''multi-disease'' uploaded_state)) \<and>
   \<not> temp_file_present
       (snd (run_analysis_background demo_bg_env ''sess2'' ''uploads/sess2_corrupt.nii''
               ''multi-disease'' uploaded_state))"
proof -
  have c1: "get_supabase_client demo_bg_env = None" by (simp add: demo_bg_env_def)
  have c2: "get_supabase_client no_report_env = None"
    by (simp add: no_report_env_def demo_bg_env_def)
  have r1: "os_remove_ok demo_bg_env" by (simp add: demo_bg_env_def)
  have r2: "os_remove_ok no_report_env" by (simp add: no_report_env_def demo_bg_env_def)
  have t: "temp_file_present uploaded_state" by (simp add: uploaded_state_def)
  from temp_file_removal [OF c1, of "''sess1''" "''uploads/sess1_scan.nii''" "''multi-disease''"
      uploaded_state] r1
  have a: "\<not> temp_file_present
       (snd (run_analysis_background demo_bg_env ''sess1'' ''uploads/sess1_scan.nii''
               ''multi-disease'' uploaded_state))" by blast
  from temp_file_removal [OF c2, of "''sess1''" "''uploads/sess1_scan.nii''" "''multi-disease''"
      uploaded_state] r2
  have b: "\<not> temp_file_present
       (snd (run_analysis_background no_report_env ''sess1'' ''uploads/sess1_scan.nii''
               ''multi-disease'' uploaded_state))" by blast
  from temp_file_removal [OF c1, of "''sess2''" "''uploads/sess2_corrupt.nii''" "''multi-disease''"
      uploaded_state] r1
  have c: "\<not> temp_file_present
       (snd (run_analysis_background demo_bg_env ''sess2'' ''uploads/sess2_corrupt.nii''
               ''multi-disease'' uploaded_state))" by blast
  from t a b c show ?thesis by blast
qed

text \<open>
  Claim C10 as stated fails: when the removal of the uploaded file raises, the exception
  is swallowed by the \<open>finally\<close> clause and the file is still present after a run that
  completed.
\<close>

theorem temp_file_remains_counterexample:
  "fst (run_analysis_background locked_file_env ''sess1'' ''uploads/sess1_scan.nii''
          ''multi-disease'' uploaded_state) = None \<and>
   session_status
     (snd (run_analysis_background locked_file_env ''sess1'' ''uploads/sess1_scan.nii''
             ''multi-disease'' uploaded_state)) = ''completed'' \<and>
   temp_file_present
     (snd (run_analysis_background locked_file_env ''sess1'' ''uploads/sess1_scan.nii''
             ''multi-disease'' uploaded_state))"
  by code_simp

section \<open>Origin of the per-slice predictions\<close>

lemma mock_prediction_returns:
  assumes "class_names p \<noteq> []" and "length (class_names p) \<le> length (dirichlet env k)"
  shows "\<exists>pr. mock_prediction p env k = Inr pr"
proof -
  from assms have "dirichlet env k \<noteq> []" by auto
  then obtain y ys where "dirichlet env k = y # ys" by (cases "dirichlet env k") auto
  with assms show ?thesis
    by (simp add: mock_prediction_def py_max_def Let_def)
qed

lemma psi_real:
  assumes "is_available p" and "inference_succeeds p env path"
  shows "\<exists>out pr. forward env path = Inr out \<and> real_prediction p out = Inr pr \<and>
           predict_single_image p env path k = (Inr (RealModel, pr), k)"
  using assms
  by (auto simp: predict_single_image_def inference_succeeds_def returns_def Let_def
      split: sum.splits)

lemma psi_fallback:
  assumes "\<not> (is_available p \<and> inference_succeeds p env path)"
  shows "predict_single_image p env path k =
           (case mock_prediction p env k of
              Inl e \<Rightarrow> (Inl e, Suc k)
            | Inr pr \<Rightarrow> (Inr (StandIn, pr), Suc k))"
  using assms
  by (auto simp: predict_single_image_def inference_succeeds_def returns_def Let_def
      split: sum.splits)

lemma psi_expected:
  assumes names: "class_names p \<noteq> []"
    and draws: "\<forall>j. length (class_names p) \<le> length (dirichlet env j)"
  shows "\<exists>pr k'. predict_single_image p env path k = (Inr (expected_origin p env path, pr), k')"
proof (cases "is_available p \<and> inference_succeeds p env path")
  case True
  then show ?thesis
    using psi_real [of p env path k] by (auto simp: expected_origin_def)
next
  case False
  from draws have "length (class_names p) \<le> length (dirichlet env k)" by simp
  from mock_prediction_returns [OF names this] obtain pr
    where "mock_prediction p env k = Inr pr" by blast
  with False show ?thesis
    by (simp add: psi_fallback expected_origin_def)
qed

lemma collect_origins:
  assumes names: "class_names p \<noteq> []"
    and draws: "\<forall>j. length (class_names p) \<le> length (dirichlet env j)"
  shows "map fst (collect_predictions p env i paths k) = map (expected_origin p env) paths"
proof (induction paths arbitrary: i k)
  case Nil
  show ?case by simp
next
  case (Cons path rest)
  from psi_expected [OF names draws, of path k] obtain pr k'
    where "predict_single_image p env path k = (Inr (expected_origin p env path, pr), k')"
    by blast
  then show ?case by (simp add: Cons.IH)
qed

lemma collect_provenance:
  assumes "t \<in> set (collect_predictions p env i paths k)"
  shows "(fst t = StandIn \<longrightarrow> (\<exists>j pr. mock_prediction p env j = Inr pr \<and> carries (snd t) pr)) \<and>
         (fst t = RealModel \<longrightarrow>
            is_available p \<and>
            (\<exists>path \<in> set paths. \<exists>out pr.
               forward env path = Inr out \<and> real_prediction p out = Inr pr \<and>
               carries (snd t) pr))"
  using assms
proof (induction paths arbitrary: i k)
  case Nil
  then show ?case by simp
next
  case (Cons path rest)
  obtain res k' where ps: "predict_single_image p env path k = (res, k')"
    by (cases "predict_single_image p env path k")
  have later: ?case if "t \<in> set (collect_predictions p env (Suc i) rest k')"
    using Cons.IH [OF that] by auto
  show ?case
  proof (cases res)
    case (Inl e)
    with Cons.prems ps later show ?thesis by simp
  next
    case (Inr tagged)
    obtain og pr where tg: "tagged = (og, pr)" by (cases tagged)
    let ?ip = "\<lparr>predicted_class = predicted_class pr, confidence = confidence pr,
                 probabilities = probabilities pr, image_index = i,
                 image_path = basename env path\<rparr>"
    from Cons.prems ps Inr tg
    consider "t = (og, ?ip)" | "t \<in> set (collect_predictions p env (Suc i) rest k')"
      by auto
    then show ?thesis
    proof cases
      case 1
      have c: "carries ?ip pr" by (simp add: carries_def)
      show ?thesis
      proof (cases "is_available p \<and> inference_succeeds p env path")
        case True
        from psi_real [of p env path k] True obtain out pr'
          where r: "forward env path = Inr out" "real_prediction p out = Inr pr'"
            "predict_single_image p env path k = (Inr (RealModel, pr'), k)"
          by blast
        with ps Inr tg have "og = RealModel" "pr' = pr" by simp_all
        with 1 c r True show ?thesis by auto
      next
        case False
        from psi_fallback [OF False, of k] ps Inr tg
        have "og = StandIn \<and> mock_prediction p env k = Inr pr"
          by (auto split: sum.splits)
        with 1 c show ?thesis by auto
      qed
    next
      case 2
      then show ?thesis by (rule later)
    qed
  qed
qed

text \<open>
  Claim C5, as the code has it. Take a predictor with a non-empty vocabulary and a
  stand-in generator whose Dirichlet draws have a component for every class, as those of
  \<open>numpy\<close> have. Then every slice of a run yields a per-slice prediction, and the origins
  of the predictions, in the order of the slices, are decided slice by slice: the real
  model when the predictor is available and the real inference of that slice succeeds,
  the stand-in generator otherwise, whatever happened at the slices before. So with an
  unavailable predictor all predictions are stand-ins, with an available predictor and no
  failing inference all are real, and a run with both succeeding and failing slices holds
  stand-in predictions at exactly the failing slices. A prediction of stand-in origin holds
  the values of a draw of \<open>_mock_prediction\<close>; a prediction of real origin holds the
  values computed from the forward pass of one of the slices, with an available predictor.
\<close>

theorem prediction_origins:
  assumes "class_names p \<noteq> []"
    and "\<forall>j. length (class_names p) \<le> length (dirichlet env j)"
  shows "map fst (collect_predictions p env i paths k) =
           map (\<lambda>path. if is_available p \<and> inference_succeeds p env path
                        then RealModel else StandIn) paths \<and>
         length (collect_predictions p env i paths k) = length paths \<and>
         (\<not> is_available p \<longrightarrow>
            map fst (collect_predictions p env i paths k) = replicate (length paths) StandIn) \<and>
         (is_available p \<and> (\<forall>path \<in> set paths. inference_succeeds p env path) \<longrightarrow>
            map fst (collect_predictions p env i paths k) = replicate (length paths) RealModel) \<and>
         (\<forall>t \<in> set (collect_predictions p env i paths k).
            (fst t = StandIn \<longrightarrow>
               (\<exists>j pr. mock_prediction p env j = Inr pr \<and> carries (snd t) pr)) \<and>
            (fst t = RealModel \<longrightarrow>
               is_available p \<and>
               (\<exists>path \<in> set paths. \<exists>out pr.
                  forward env path = Inr out \<and> real_prediction p out = Inr pr \<and>
                  carries (snd t) pr)))"
proof -
  have m: "map fst (collect_predictions p env i paths k) = map (expected_origin p env) paths"
    using assms by (rule collect_origins)
  have l: "length (collect_predictions p env i paths k) = length paths"
    using arg_cong [OF m, of length] by simp
  have e: "map fst (collect_predictions p env i paths k) =
           map (\<lambda>path. if is_available p \<and> inference_succeeds p env path
                        then RealModel else StandIn) paths"
    unfolding m by (intro map_cong) (simp_all add: expected_origin_def)
  have a: "map fst (collect_predictions p env i paths k) = replicate (length paths) StandIn"
    if "\<not> is_available p"
  proof -
    have "map (expected_origin p env) paths = map (\<lambda>path. StandIn) paths"
      using that by (intro map_cong) (simp_all add: expected_origin_def)
    then show ?thesis unfolding m by (simp add: map_replicate_const)
  qed
  have b: "map fst (collect_predictions p env i paths k) = replicate (length paths) RealModel"
    if "is_available p" "\<forall>path \<in> set paths. inference_succeeds p env path"
  proof -
    have "map (expected_origin p env) paths = map (\<lambda>path. RealModel) paths"
      using that by (intro map_cong) (simp_all add: expected_origin_def)
    then show ?thesis unfolding m by (simp add: map_replicate_const)
  qed
  have c: "\<forall>t \<in> set (collect_predictions p env i paths k).
            (fst t = StandIn \<longrightarrow>
               (\<exists>j pr. mock_prediction p env j = Inr pr \<and> carries (snd t) pr)) \<and>
            (fst t = RealModel \<longrightarrow>
               is_available p \<and>
               (\<exists>path \<in> set paths. \<exists>out pr.
                  forward env path = Inr out \<and> real_prediction p out = Inr pr \<and>
                  carries (snd t) pr))"
    using collect_provenance by blast
  from l e a b c show ?thesis by blast
qed

lemma demo_inference_succeeds:
  "inference_succeeds (new_predictor True) demo_classifier ''slices/slice_1.png''"
  "inference_succeeds (new_predictor True) demo_classifier ''slices/slice_2.png''"
  "\<not> inference_succeeds (new_predictor True) demo_classifier ''slices/slice_9.png''"
  by (simp_all add: inference_succeeds_def demo_classifier_def demo_forward_def
      real_prediction_def new_predictor_def returns_def)

theorem prediction_origins_witness:
  "map fst (collect_predictions (new_predictor True) demo_classifier 1
     [''slices/slice_9.png'', ''slices/slice_1.png'', ''slices/slice_2.png''] 0) =
     [StandIn, RealModel, RealModel] \<and>
   map fst (collect_predictions (new_predictor True) demo_classifier 1
     [''slices/slice_1.png'', ''slices/slice_2.png''] 0) = [RealModel, RealModel] \<and>
   map fst (collect_predictions (new_predictor False) demo_classifier 1
     [''slices/slice_1.png'', ''slices/slice_2.png''] 0) = [StandIn, StandIn]"
proof -
  have n1: "class_names (new_predictor b) \<noteq> []" for b
    by (simp add: new_predictor_def)
  have d1: "\<forall>j. length (class_names (new_predictor b)) \<le> length (dirichlet demo_classifier j)"
    for b by (simp add: new_predictor_def demo_classifier_def)
  have av: "is_available (new_predictor True)" "\<not> is_available (new_predictor False)"
    by (simp_all add: is_available_def new_predictor_def)
  from prediction_origins [OF n1 [of True] d1 [of True], where i = 1 and k = 0
      and paths = "[''slices/slice_9.png'', ''slices/slice_1.png'', ''slices/slice_2.png'']"]
  have a: "map fst (collect_predictions (new_predictor True) demo_classifier 1
     [''slices/slice_9.png'', ''slices/slice_1.png'', ''slices/slice_2.png''] 0) =
     [StandIn, RealModel, RealModel]"
    using av demo_inference_succeeds by simp
  from prediction_origins [OF n1 [of True] d1 [of True], where i = 1 and k = 0
      and paths = "[''slices/slice_1.png'', ''slices/slice_2.png'']"]
  have b: "map fst (collect_predictions (new_predictor True) demo_classifier 1
     [''slices/slice_1.png'', ''slices/slice_2.png''] 0) = [RealModel, RealModel]"
    using av demo_inference_succeeds by simp
  from prediction_origins [OF n1 [of False] d1 [of False], where i = 1 and k = 0
      and paths = "[''slices/slice_1.png'', ''slices/slice_2.png'']"]
  have c: "map fst (collect_predictions (new_predictor False) demo_classifier 1
     [''slices/slice_1.png'', ''slices/slice_2.png''] 0) = [StandIn, StandIn]"
    using av by simp
  from a b c show ?thesis by simp
qed

text \<open>
  Claim C5 as stated fails: with a loaded model, a readable first slice and an unreadable
  second slice, one call of \<open>predict_patient\<close> votes over a prediction of the real model
  and a prediction of the stand-in generator.
\<close>

theorem mixed_origins_counterexample:
  "is_available (new_predictor True) \<and>
   map fst (collect_predictions (new_predictor True) demo_classifier 1
     [''slices/slice_1.png'', ''slices/slice_9.png''] 0) = [RealModel, StandIn] \<and>
   map_sum id total_images_processed
     (predict_patient (new_predictor True) demo_classifier
        [''slices/slice_1.png'', ''slices/slice_9.png''] 0) = Inr 2"
  by code_simp

end
